theory Spec2Isabelle
  imports Main "HOL-Library.AList"
begin

section \<open>Data model\<close>

text \<open>
  Values handled by the client are JavaScript values of the JSON fragment, plus
  \<open>undefined\<close>. A plain object is the list of its own enumerable entries in the order
  \<open>Object.entries\<close> yields them; an array is a list of values. Strings are byte strings
  (UTF-8); numbers are the integer-valued ones (amounts in minor currency units, page
  limits, HTTP statuses). The entries of an object built by assignments are listed in
  the order of first assignment; JavaScript moves keys that look like array indices to the
  front, which changes no lookup.
\<close>

datatype json =
    JUndefined
  | JNull
  | JBool bool
  | JNum int
  | JStr string
  | JArr "json list"
  | JObj "(string \<times> json) list"

text \<open>\<open>types/config.ts\<close>: the caller's configuration and the resolved one (whose
  \<open>baseUrl\<close> field is \<open>resolvedBaseUrl\<close> here, the name being taken by the caller's).\<close>

record PayMongoConfig =
  publicKey :: "string option"
  secretKey :: "string option"
  baseUrl :: "string option"

text \<open>The argument of \<open>getInstance\<close>: \<open>PayMongoConfig & { forceNew?: boolean }\<close>.\<close>

record InstanceConfig = PayMongoConfig +
  forceNew :: "bool option"

record ResolvedConfig =
  apiKey :: string
  resolvedBaseUrl :: string
  isPublicKey :: bool

text \<open>\<open>utils/errors.ts\<close>: the fields of a \<open>PayMongoError\<close>, and what the client can throw:
  the three error classes (\<open>ApiError\<close> carries a \<open>PayMongoError\<close>) and the \<open>TypeError\<close> that
  \<open>new URL\<close> throws on an unusable base.\<close>

record PayMongoError =
  message :: string
  status :: nat
  code :: json
  errors :: json
  rawResponse :: json

datatype sdk_error =
    PayMongoConfigError string
  | PayMongoNetworkError string string
  | ApiError PayMongoError
  | TypeError

text \<open>\<open>utils/http.ts\<close>: request options, and what the platform's \<open>fetch\<close> takes and
  gives. A \<open>Response\<close> carries its status and the outcome of \<open>text()\<close> (\<open>None\<close> when
  reading the body rejects).\<close>

datatype HttpMethod = GET | POST | PATCH | DELETE

record RequestOptions =
  req_method :: HttpMethod
  path :: string
  body :: json
  params :: "(string \<times> json) list option"

record RequestInit =
  init_method :: HttpMethod
  init_headers :: "(string \<times> string) list"
  init_body :: "string option"

record Response =
  resp_status :: nat
  resp_text :: "string option"

datatype fetch_result = FetchRejected string | FetchResolved Response

record URL =
  href_before_query :: string
  searchParams :: "(string \<times> string) list"

text \<open>The platform facilities the transport delegates to: URL resolution, \<open>fetch\<close>,
  and the JSON codec (\<open>JSON_parse\<close> gives \<open>None\<close> where \<open>JSON.parse\<close> throws).\<close>

record platform =
  new_URL :: "string \<Rightarrow> string \<Rightarrow> URL option"
  fetch :: "string \<Rightarrow> RequestInit \<Rightarrow> fetch_result"
  JSON_parse :: "string \<Rightarrow> json option"
  JSON_stringify :: "json \<Rightarrow> string"

text \<open>The facade object: its identity (each \<open>new PayMongo\<close> allocates a fresh object)
  and its resolved configuration; the transport and the seven resource handlers are built
  from the configuration and hold nothing else. The class's static state is the singleton
  slot \<open>PayMongo.instance\<close> (\<open>the_instance\<close> here), together with the allocation counter
  that gives objects their identity.\<close>

record PayMongo =
  ident :: nat
  config :: ResolvedConfig

record statics =
  the_instance :: "PayMongo option"
  next_ident :: nat

section \<open>JavaScript primitives used by the code\<close>

definition isUpperAZ :: "char \<Rightarrow> bool" where
  "isUpperAZ c = (65 \<le> (of_char c :: nat) \<and> (of_char c :: nat) \<le> 90)"

definition toLowerCase_char :: "char \<Rightarrow> char" where
  "toLowerCase_char c = (if isUpperAZ c then char_of ((of_char c :: nat) + 32) else c)"

definition present :: "json \<Rightarrow> bool" where
  "present v = (v \<noteq> JUndefined \<and> v \<noteq> JNull)"

text \<open>Reading a property \<open>v.name\<close> of a value that is neither \<open>null\<close> nor \<open>undefined\<close>, for
  the names the code reads (\<open>errors\<close>, \<open>detail\<close>, \<open>code\<close>): only an object can hold them.
  Then \<open>v?.name\<close>, \<open>v ?? d\<close> and \<open>v[0]\<close>.\<close>

fun getProp :: "json \<Rightarrow> string \<Rightarrow> json" where
  "getProp (JObj es) name = (case map_of es name of Some v \<Rightarrow> v | None \<Rightarrow> JUndefined)"
| "getProp _ name = JUndefined"

definition optProp :: "json \<Rightarrow> string \<Rightarrow> json" where
  "optProp v name = (if present v then getProp v name else JUndefined)"

definition nullish :: "json \<Rightarrow> json \<Rightarrow> json" where
  "nullish v d = (if present v then v else d)"

fun index0 :: "json \<Rightarrow> json" where
  "index0 (JArr []) = JUndefined"
| "index0 (JArr (x # xs)) = x"
| "index0 (JStr []) = JUndefined"
| "index0 (JStr (c # cs)) = JStr [c]"
| "index0 (JObj es) = getProp (JObj es) ''0''"
| "index0 _ = JUndefined"

fun truthy :: "json \<Rightarrow> bool" where
  "truthy JUndefined = False"
| "truthy JNull = False"
| "truthy (JBool b) = b"
| "truthy (JNum n) = (n \<noteq> 0)"
| "truthy (JStr s) = (s \<noteq> [])"
| "truthy _ = True"

text \<open>Decimal rendering of a number, as a template literal or \<open>String\<close> produces it.\<close>

fun showNat :: "nat \<Rightarrow> string" where
  "showNat n = (if n < 10 then [char_of (48 + n)] else showNat (n div 10) @ [char_of (48 + n mod 10)])"

declare showNat.simps [simp del]

definition showInt :: "int \<Rightarrow> string" where
  "showInt i = (if i < 0 then CHR ''-'' # showNat (nat (- i)) else showNat (nat i))"

text \<open>\<open>String(v)\<close>; an array joins its elements with commas, \<open>null\<close> and \<open>undefined\<close>
  elements giving the empty string.\<close>

fun js_String :: "json \<Rightarrow> string" and js_join :: "json list \<Rightarrow> string" where
  "js_String JUndefined = ''undefined''"
| "js_String JNull = ''null''"
| "js_String (JBool b) = (if b then ''true'' else ''false'')"
| "js_String (JNum n) = showInt n"
| "js_String (JStr s) = s"
| "js_String (JArr xs) = js_join xs"
| "js_String (JObj es) = ''[object Object]''"
| "js_join [] = []"
| "js_join [x] = (if present x then js_String x else [])"
| "js_join (x # y # ys) = (if present x then js_String x else []) @ '','' @ js_join (y # ys)"

definition startsWith :: "string \<Rightarrow> string \<Rightarrow> bool" where
  "startsWith s p = (take (length p) s = p)"

text \<open>Truthiness of an optional string: absent and empty are both falsy.\<close>

fun truthyKey :: "string option \<Rightarrow> bool" where
  "truthyKey None = False"
| "truthyKey (Some s) = (s \<noteq> [])"

subsection \<open>Base64 (\<open>btoa\<close> and \<open>atob\<close>)\<close>

text \<open>The standard alphabet with \<open>=\<close> padding, over bytes. API keys are ASCII, and on
  ASCII text the browser's \<open>btoa\<close> and Node's \<open>Buffer.from(s).toString('base64')\<close> are
  this same function.\<close>

definition b64char :: "nat \<Rightarrow> char" where
  "b64char n =
     (if n < 26 then char_of (65 + n)
      else if n < 52 then char_of (97 + (n - 26))
      else if n < 62 then char_of (48 + (n - 52))
      else if n = 62 then CHR ''+'' else CHR ''/'')"


fun btoa :: "string \<Rightarrow> string" where
  "btoa [] = []"
| "btoa [a] =
     (let x = (of_char a :: nat) in
      [b64char (x div 4), b64char ((x mod 4) * 16), CHR ''='', CHR ''=''])"
| "btoa [a, b] =
     (let x = (of_char a :: nat); y = (of_char b :: nat) in
      [b64char (x div 4), b64char ((x mod 4) * 16 + y div 16), b64char ((y mod 16) * 4), CHR ''=''])"
| "btoa (a # b # c # rest) =
     (let x = (of_char a :: nat); y = (of_char b :: nat); z = (of_char c :: nat) in
      [b64char (x div 4), b64char ((x mod 4) * 16 + y div 16),
       b64char ((y mod 16) * 4 + z div 64), b64char (z mod 64)] @ btoa rest)"


subsection \<open>Query serialisation (\<open>URLSearchParams\<close>, \<open>URL.toString\<close>)\<close>

definition hexDigit :: "nat \<Rightarrow> char" where
  "hexDigit n = (if n < 10 then char_of (48 + n) else char_of (55 + n))"

definition urlencodeByte :: "char \<Rightarrow> string" where
  "urlencodeByte c =
     (let n = (of_char c :: nat) in
      if (48 \<le> n \<and> n \<le> 57) \<or> (65 \<le> n \<and> n \<le> 90) \<or> (97 \<le> n \<and> n \<le> 122)
         \<or> c = CHR ''*'' \<or> c = CHR ''-'' \<or> c = CHR ''.'' \<or> c = CHR ''_''
      then [c]
      else if c = CHR '' '' then ''+''
      else [CHR ''%'', hexDigit (n div 16), hexDigit (n mod 16)])"

definition urlencode :: "string \<Rightarrow> string" where
  "urlencode s = concat (map urlencodeByte s)"

fun serializeParams :: "(string \<times> string) list \<Rightarrow> string" where
  "serializeParams [] = []"
| "serializeParams [(k, v)] = urlencode k @ ''='' @ urlencode v"
| "serializeParams ((k, v) # p # ps) = urlencode k @ ''='' @ urlencode v @ ''&'' @ serializeParams (p # ps)"

definition URL_toString :: "URL \<Rightarrow> string" where
  "URL_toString url =
     href_before_query url @
     (if searchParams url = [] then [] else ''?'' @ serializeParams (searchParams url))"

section \<open>Resource base class (\<open>resources/Base.ts\<close>)\<close>

text \<open>The replacement \<open>key.replace(/[A-Z]/g, (letter) => `_${letter.toLowerCase()}`)\<close>.\<close>

fun snakeKey :: "string \<Rightarrow> string" where
  "snakeKey [] = []"
| "snakeKey (c # cs) =
     (if isUpperAZ c then CHR ''_'' # toLowerCase_char c # snakeKey cs else c # snakeKey cs)"

text \<open>The assignment \<open>result[k] = v\<close> on an object created by \<open>{}\<close>: it overwrites an
  existing own entry in place or adds a new last one. Under the key \<open>__proto__\<close> it runs
  the setter inherited from \<open>Object.prototype\<close> instead, which replaces the prototype (for
  an object value) or does nothing, and in either case stores no own entry; the prototype
  is seen neither by \<open>Object.entries\<close> nor by \<open>JSON.stringify\<close>.\<close>

definition setProperty :: "string \<Rightarrow> json \<Rightarrow> (string \<times> json) list \<Rightarrow> (string \<times> json) list" where
  "setProperty k v result = (if k = ''__proto__'' then result else AList.update k v result)"

text \<open>\<open>toSnakeCase\<close>: the loop over \<open>Object.entries(obj)\<close>, with \<open>result\<close> as the
  accumulator.\<close>

fun toSnakeCase_loop :: "(string \<times> json) list \<Rightarrow> (string \<times> json) list \<Rightarrow> (string \<times> json) list" where
  "toSnakeCase_loop [] result = result"
| "toSnakeCase_loop ((key, val) # rest) result =
     toSnakeCase_loop rest
       (if val \<noteq> JUndefined \<and> val \<noteq> JNull then
          (case val of
             JObj obj \<Rightarrow> setProperty (snakeKey key) (JObj (toSnakeCase_loop obj [])) result
           | _ \<Rightarrow> setProperty (snakeKey key) val result)
        else result)"

definition toSnakeCase :: "(string \<times> json) list \<Rightarrow> (string \<times> json) list" where
  "toSnakeCase obj = toSnakeCase_loop obj []"

definition wrapBody :: "(string \<times> json) list \<Rightarrow> json" where
  "wrapBody attributes = JObj [(''data'', JObj [(''attributes'', JObj (toSnakeCase attributes))])]"

section \<open>Error model (\<open>utils/errors.ts\<close>)\<close>

definition fromResponse :: "nat \<Rightarrow> json \<Rightarrow> PayMongoError" where
  "fromResponse st bdy =
     (let errs = nullish (optProp bdy ''errors'') (JArr []);
          firstError = index0 errs;
          msg = nullish (optProp firstError ''detail'')
                  (JStr (''PayMongo API error (status '' @ showNat st @ '')''));
          cd = nullish (optProp firstError ''code'') (JStr ''unknown_error'')
      in \<lparr>message = js_String msg, status = st, code = cd, errors = errs, rawResponse = bdy\<rparr>)"

section \<open>Transport (\<open>utils/http.ts\<close>)\<close>

text \<open>The \<open>forEach\<close> over \<open>Object.entries(params)\<close>, appending to \<open>url.searchParams\<close>.\<close>

fun appendParams :: "(string \<times> json) list \<Rightarrow> (string \<times> string) list \<Rightarrow> (string \<times> string) list" where
  "appendParams [] sp = sp"
| "appendParams ((key, val) # rest) sp =
     appendParams rest (if val \<noteq> JUndefined then sp @ [(key, js_String val)] else sp)"

definition buildUrl :: "platform \<Rightarrow> ResolvedConfig \<Rightarrow> string \<Rightarrow> (string \<times> json) list option \<Rightarrow> string option" where
  "buildUrl pf cfg pth ps =
     (case new_URL pf pth (resolvedBaseUrl cfg) of
        None \<Rightarrow> None
      | Some url \<Rightarrow>
          Some (URL_toString
            (case ps of
               None \<Rightarrow> url
             | Some entries \<Rightarrow> url\<lparr>searchParams := appendParams entries (searchParams url)\<rparr>)))"

definition getAuthHeader :: "ResolvedConfig \<Rightarrow> string" where
  "getAuthHeader cfg = (let credentials = apiKey cfg @ '':'' in ''Basic '' @ btoa credentials)"

text \<open>\<open>Response.ok\<close>: the status is in the range 200 to 299.\<close>

definition resp_ok :: "Response \<Rightarrow> bool" where
  "resp_ok r = (200 \<le> resp_status r \<and> resp_status r \<le> 299)"

text \<open>\<open>request\<close>, first half: the URL and the options handed to \<open>fetch\<close>
  (\<open>None\<close> when \<open>new URL\<close> throws).\<close>

definition prepareFetch :: "platform \<Rightarrow> ResolvedConfig \<Rightarrow> RequestOptions \<Rightarrow> (string \<times> RequestInit) option" where
  "prepareFetch pf cfg options =
     (case buildUrl pf cfg (path options) (params options) of
        None \<Rightarrow> None
      | Some url \<Rightarrow>
          Some (url,
            \<lparr>init_method = req_method options,
             init_headers =
               [(''Authorization'', getAuthHeader cfg),
                (''Content-Type'', ''application/json''),
                (''Accept'', ''application/json'')],
             init_body =
               (if truthy (body options) \<and> (req_method options = POST \<or> req_method options = PATCH)
                then Some (JSON_stringify pf (body options)) else None)\<rparr>))"

text \<open>\<open>request\<close>, second half: reading and classifying the outcome of \<open>fetch\<close>.\<close>

definition parseBody :: "platform \<Rightarrow> Response \<Rightarrow> json" where
  "parseBody pf response =
     (case resp_text response of
        None \<Rightarrow> JNull
      | Some text \<Rightarrow>
          if text \<noteq> [] then (case JSON_parse pf text of None \<Rightarrow> JNull | Some v \<Rightarrow> v)
          else JNull)"

definition request :: "platform \<Rightarrow> ResolvedConfig \<Rightarrow> RequestOptions \<Rightarrow> sdk_error + json" where
  "request pf cfg options =
     (case prepareFetch pf cfg options of
        None \<Rightarrow> Inl TypeError
      | Some (url, fetchOptions) \<Rightarrow>
          (case fetch pf url fetchOptions of
             FetchRejected err \<Rightarrow>
               Inl (PayMongoNetworkError ''Network error while communicating with PayMongo API'' err)
           | FetchResolved response \<Rightarrow>
               (let responseBody = parseBody pf response in
                if \<not> resp_ok response
                then Inl (ApiError (fromResponse (resp_status response) responseBody))
                else Inr responseBody)))"

section \<open>Facade (\<open>PayMongo.ts\<close>)\<close>

definition DEFAULT_BASE_URL :: string where
  "DEFAULT_BASE_URL = ''https://api.paymongo.com/v1''"

definition resolveConfig :: "'a PayMongoConfig_scheme \<Rightarrow> sdk_error + ResolvedConfig" where
  \<open>resolveConfig cfg =
     (if \<not> truthyKey (publicKey cfg) \<and> \<not> truthyKey (secretKey cfg) then
        Inl (PayMongoConfigError (''PayMongo requires either a publicKey or secretKey. '' @
          ''Use publicKey for client-side operations, secretKey for server-side operations.''))
      else
        (let key = (if truthyKey (secretKey cfg) then the (secretKey cfg) else the (publicKey cfg));
             isPublic = (\<not> truthyKey (secretKey cfg) \<and> truthyKey (publicKey cfg))
         in if isPublic \<and> \<not> startsWith key ''pk_'' then
              Inl (PayMongoConfigError
                ''Invalid public key format. Public keys should start with "pk_test_" or "pk_live_".'')
            else if \<not> isPublic \<and> \<not> startsWith key ''sk_'' then
              Inl (PayMongoConfigError
                ''Invalid secret key format. Secret keys should start with "sk_test_" or "sk_live_".'')
            else
              Inr \<lparr>apiKey = key,
                   resolvedBaseUrl = (if truthyKey (baseUrl cfg) then the (baseUrl cfg) else DEFAULT_BASE_URL),
                   isPublicKey = isPublic\<rparr>))\<close>

text \<open>The constructor: it throws what \<open>resolveConfig\<close> throws, and otherwise yields a
  fresh object.\<close>

definition new_PayMongo :: "'a PayMongoConfig_scheme \<Rightarrow> statics \<Rightarrow> (sdk_error + PayMongo) \<times> statics" where
  "new_PayMongo cfg s =
     (case resolveConfig cfg of
        Inl e \<Rightarrow> (Inl e, s)
      | Inr rc \<Rightarrow> (Inr \<lparr>ident = next_ident s, config = rc\<rparr>, s\<lparr>next_ident := Suc (next_ident s)\<rparr>))"

definition getInstance :: "InstanceConfig \<Rightarrow> statics \<Rightarrow> (sdk_error + PayMongo) \<times> statics" where
  "getInstance cfg s =
     (if the_instance s = None \<or> forceNew cfg = Some True then
        (case new_PayMongo cfg s of
           (Inl e, s') \<Rightarrow> (Inl e, s')
         | (Inr p, s') \<Rightarrow> (Inr p, s'\<lparr>the_instance := Some p\<rparr>))
      else (Inr (the (the_instance s)), s))"

definition resetInstance :: "statics \<Rightarrow> statics" where
  "resetInstance s = s\<lparr>the_instance := None\<rparr>"

definition isClientSide :: "PayMongo \<Rightarrow> bool" where
  "isClientSide p = isPublicKey (config p)"

definition isServerSide :: "PayMongo \<Rightarrow> bool" where
  "isServerSide p = (\<not> isPublicKey (config p))"

section \<open>Notions used in the statements\<close>

text \<open>What \<open>toSnakeCase\<close> makes of one value and of one entry that it keeps.\<close>

definition shapeValue :: "json \<Rightarrow> json" where
  "shapeValue v = (case v of JObj obj \<Rightarrow> JObj (toSnakeCase obj) | _ \<Rightarrow> v)"

definition shapeEntry :: "string \<times> json \<Rightarrow> string \<times> json" where
  "shapeEntry e = (snakeKey (fst e), shapeValue (snd e))"

text \<open>The entries that \<open>toSnakeCase\<close> assigns and that are stored: those of the entries with
  a present value whose underscore key is not \<open>__proto__\<close>, in order.\<close>

definition storedEntries :: "(string \<times> json) list \<Rightarrow> (string \<times> json) list" where
  "storedEntries obj =
     filter (\<lambda>e. fst e \<noteq> ''__proto__'') (map shapeEntry (filter (\<lambda>e. present (snd e)) obj))"

text \<open>A key in underscore form: it has no letter of \<open>A-Z\<close>.\<close>

definition isSnake :: "string \<Rightarrow> bool" where
  "isSnake k = list_all (\<lambda>c. \<not> isUpperAZ c) k"

text \<open>No entry holds \<open>undefined\<close> or \<open>null\<close>, and every key is in underscore form, at every
  nesting level reached through objects only (arrays are not looked into).\<close>

fun noAbsent :: "json \<Rightarrow> bool" and noAbsentEntries :: "(string \<times> json) list \<Rightarrow> bool" where
  "noAbsent (JObj es) = noAbsentEntries es"
| "noAbsent _ = True"
| "noAbsentEntries [] = True"
| "noAbsentEntries ((k, v) # es) = (present v \<and> noAbsent v \<and> noAbsentEntries es)"

fun snakeKeys :: "json \<Rightarrow> bool" and snakeKeysEntries :: "(string \<times> json) list \<Rightarrow> bool" where
  "snakeKeys (JObj es) = snakeKeysEntries es"
| "snakeKeys _ = True"
| "snakeKeysEntries [] = True"
| "snakeKeysEntries ((k, v) # es) = (isSnake k \<and> snakeKeys v \<and> snakeKeysEntries es)"

text \<open>The shape of every output of \<open>toSnakeCase\<close>: distinct underscore keys other than
  \<open>__proto__\<close> and present values, at every level reached through objects.\<close>

fun normal :: "json \<Rightarrow> bool" and normalEntries :: "(string \<times> json) list \<Rightarrow> bool" where
  "normal (JObj es) = (distinct (map fst es) \<and> normalEntries es)"
| "normal _ = True"
| "normalEntries [] = True"
| "normalEntries ((k, v) # es) =
     (isSnake k \<and> k \<noteq> ''__proto__'' \<and> present v \<and> normal v \<and> normalEntries es)"

text \<open>A response body that lists no error detail.\<close>

definition noErrorsListed :: "json \<Rightarrow> bool" where
  "noErrorsListed bdy =
     (case bdy of
        JObj es \<Rightarrow>
          (case map_of es ''errors'' of
             None \<Rightarrow> True
           | Some e \<Rightarrow> e = JUndefined \<or> e = JNull \<or> e = JArr [])
      | _ \<Rightarrow> True)"

text \<open>The message used when no detail text is available.\<close>

definition fallbackMessage :: "nat \<Rightarrow> string" where
  "fallbackMessage st = ''PayMongo API error (status '' @ showNat st @ '')''"

text \<open>The outcome of the \<open>fetch\<close> call that a request issues (\<open>None\<close> when the request
  fails before calling \<open>fetch\<close>).\<close>

definition fetchOutcome :: "platform \<Rightarrow> ResolvedConfig \<Rightarrow> RequestOptions \<Rightarrow> fetch_result option" where
  "fetchOutcome pf cfg options =
     (case prepareFetch pf cfg options of
        None \<Rightarrow> None
      | Some (url, fetchOptions) \<Rightarrow> Some (fetch pf url fetchOptions))"

text \<open>A platform for running the transport on concrete inputs: URLs resolve by
  concatenation, \<open>fetch\<close> answers every call with the given outcome, and the JSON parser
  is the given one.\<close>

definition fixedPlatform :: "fetch_result \<Rightarrow> (string \<Rightarrow> json option) \<Rightarrow> platform" where
  "fixedPlatform outcome parse =
     \<lparr>new_URL = (\<lambda>p b. Some \<lparr>href_before_query = b @ p, searchParams = []\<rparr>),
      fetch = (\<lambda>u i. outcome),
      JSON_parse = parse,
      JSON_stringify = (\<lambda>v. ''{}'')\<rparr>"

text \<open>Static state as the class can reach it: the stored instance, when there is one, was
  allocated before the next object will be.\<close>

definition wellformed :: "statics \<Rightarrow> bool" where
  "wellformed s = (case the_instance s of None \<Rightarrow> True | Some p \<Rightarrow> ident p < next_ident s)"

section \<open>Request-body shaping\<close>

lemma not_upper_underscore: "\<not> isUpperAZ CHR ''_''"
  by (simp add: isUpperAZ_def)

lemma not_upper_lower: "isUpperAZ c \<Longrightarrow> \<not> isUpperAZ (toLowerCase_char c)"
  by (simp add: isUpperAZ_def toLowerCase_char_def)

lemma isSnake_snakeKey: "isSnake (snakeKey k)"
  by (induction k) (simp_all add: isSnake_def not_upper_underscore not_upper_lower)

lemma snakeKey_fixed: "isSnake k \<Longrightarrow> snakeKey k = k"
  by (induction k) (simp_all add: isSnake_def)

lemma snakeKey_idem: "snakeKey (snakeKey k) = snakeKey k"
  by (rule snakeKey_fixed) (rule isSnake_snakeKey)

lemma loop_step:
  "toSnakeCase_loop (e # rest) result =
     toSnakeCase_loop rest
       (if present (snd e) then setProperty (snakeKey (fst e)) (shapeValue (snd e)) result
        else result)"
  by (cases e) (simp add: present_def shapeValue_def toSnakeCase_def split: json.splits)

lemma fst_shapeEntry: "fst (shapeEntry e) = snakeKey (fst e)"
  by (simp add: shapeEntry_def)

lemma snd_shapeEntry: "snd (shapeEntry e) = shapeValue (snd e)"
  by (simp add: shapeEntry_def)

lemma shapeEntry_pair: "shapeEntry (k, v) = (snakeKey k, shapeValue v)"
  by (simp add: shapeEntry_def)

lemma loop_fold:
  "toSnakeCase_loop es result =
     fold (\<lambda>e r. AList.update (fst e) (snd e) r) (storedEntries es) result"
proof (induction es arbitrary: result)
  case Nil
  show ?case by (simp add: storedEntries_def)
next
  case (Cons e es)
  show ?case
    by (simp only: loop_step Cons.IH)
       (simp add: storedEntries_def setProperty_def fst_shapeEntry snd_shapeEntry)
qed

lemma map_of_fold_update:
  "map_of (fold (\<lambda>e r. AList.update (fst e) (snd e) r) xs res) = map_of res ++ map_of (rev xs)"
proof (induction xs arbitrary: res)
  case Nil
  show ?case by simp
next
  case (Cons x xs)
  have "map_of (fold (\<lambda>e r. AList.update (fst e) (snd e) r) (x # xs) res)
        = (map_of res)(fst x \<mapsto> snd x) ++ map_of (rev xs)"
    by (simp only: fold_simps Cons.IH update_conv')
  also have "\<dots> = map_of res ++ map_of (rev (x # xs))"
    by (cases x) (auto simp: map_add_def fun_eq_iff split: option.splits)
  finally show ?case .
qed

lemma keys_fold_update:
  "fst ` set (fold (\<lambda>e r. AList.update (fst e) (snd e) r) xs res) = fst ` set res \<union> fst ` set xs"
proof -
  have "dom (map_of (fold (\<lambda>e r. AList.update (fst e) (snd e) r) xs res))
        = dom (map_of res) \<union> dom (map_of (rev xs))"
    by (simp add: map_of_fold_update Un_commute)
  then show ?thesis
    by (simp add: dom_map_of_conv_image_fst)
qed

lemma distinct_fold_update:
  "distinct (map fst res) \<Longrightarrow> distinct (map fst (fold (\<lambda>e r. AList.update (fst e) (snd e) r) xs res))"
  by (induction xs arbitrary: res) (simp_all add: distinct_update)

lemma map_of_toSnakeCase:
  "map_of (toSnakeCase obj) = map_of (rev (storedEntries obj))"
  by (simp add: toSnakeCase_def loop_fold map_of_fold_update)

lemma set_storedEntries:
  "set (storedEntries obj)
     = {e'. \<exists>e \<in> set obj. present (snd e) \<and> snakeKey (fst e) \<noteq> ''__proto__'' \<and> e' = shapeEntry e}"
  by (auto simp: storedEntries_def fst_shapeEntry)

lemma keys_toSnakeCase:
  "fst ` set (toSnakeCase obj)
     = snakeKey ` {k. \<exists>v. (k, v) \<in> set obj \<and> present v} - {''__proto__''}"
proof -
  have "fst ` set (toSnakeCase obj) = fst ` set (storedEntries obj)"
    by (simp add: toSnakeCase_def loop_fold keys_fold_update)
  also have "\<dots> = snakeKey ` {k. \<exists>v. (k, v) \<in> set obj \<and> present v} - {''__proto__''}"
    unfolding set_storedEntries by (force simp: fst_shapeEntry)
  finally show ?thesis .
qed

lemma distinct_toSnakeCase: "distinct (map fst (toSnakeCase obj))"
  by (simp add: toSnakeCase_def loop_fold distinct_fold_update)

lemma normalEntries_update:
  "normalEntries res \<Longrightarrow> isSnake k \<Longrightarrow> k \<noteq> ''__proto__'' \<Longrightarrow> present v \<Longrightarrow> normal v
     \<Longrightarrow> normalEntries (AList.update k v res)"
  by (induction res) auto

lemma normalEntries_setProperty:
  "normalEntries res \<Longrightarrow> isSnake k \<Longrightarrow> present v \<Longrightarrow> normal v \<Longrightarrow> normalEntries (setProperty k v res)"
  by (simp add: setProperty_def normalEntries_update)

lemma distinct_loop: "distinct (map fst (toSnakeCase_loop es []))"
  using distinct_toSnakeCase by (simp add: toSnakeCase_def)

lemma normalEntries_loop:
  "normalEntries res \<Longrightarrow> normalEntries (toSnakeCase_loop es res)"
proof (induction es res rule: toSnakeCase_loop.induct)
  case (1 result)
  then show ?case by simp
next
  case (2 key val rest result)
  show ?case
  proof (cases "val \<noteq> JUndefined \<and> val \<noteq> JNull")
    case False
    with 2 show ?thesis by auto
  next
    case True
    show ?thesis
    proof (cases val)
      case (JObj obj)
      with True 2 have "normalEntries (toSnakeCase_loop obj [])" by simp
      then have "normal (JObj (toSnakeCase_loop obj []))"
        by (simp add: distinct_loop)
      then have "normalEntries (setProperty (snakeKey key) (JObj (toSnakeCase_loop obj [])) result)"
        using "2.prems" by (intro normalEntries_setProperty) (simp_all add: isSnake_snakeKey present_def)
      with True JObj "2.IH"(2) show ?thesis by simp
    qed (use True 2 in \<open>simp_all add: normalEntries_setProperty isSnake_snakeKey present_def\<close>)
  qed
qed

lemma normal_toSnakeCase: "normal (JObj (toSnakeCase obj))"
  by (simp add: distinct_toSnakeCase) (simp add: toSnakeCase_def normalEntries_loop)

lemma update_fresh: "k \<notin> fst ` set res \<Longrightarrow> AList.update k v res = res @ [(k, v)]"
  by (induction res) auto

lemma fold_update_distinct:
  "distinct (map fst (res @ xs)) \<Longrightarrow> fold (\<lambda>e r. AList.update (fst e) (snd e) r) xs res = res @ xs"
proof (induction xs arbitrary: res)
  case Nil
  show ?case by simp
next
  case (Cons x xs)
  from Cons.prems have fresh: "fst x \<notin> fst ` set res" by auto
  from Cons.prems have "distinct (map fst ((res @ [x]) @ xs))" by simp
  then have "fold (\<lambda>e r. AList.update (fst e) (snd e) r) xs (res @ [x]) = (res @ [x]) @ xs"
    by (rule Cons.IH)
  with fresh show ?case by (simp add: update_fresh)
qed

lemma storedEntries_Cons:
  "storedEntries (e # es) =
     (if present (snd e) \<and> snakeKey (fst e) \<noteq> ''__proto__'' then shapeEntry e # storedEntries es
      else storedEntries es)"
  by (simp add: storedEntries_def fst_shapeEntry)

lemma normal_fixed:
  "(normal v \<longrightarrow> shapeValue v = v)"
  "(normalEntries es \<longrightarrow> storedEntries es = es)"
proof (induction v and es rule: normal_normalEntries.induct)
  case (1 es)
  show ?case
  proof
    assume n: "normal (JObj es)"
    with 1 have "storedEntries es = es" by simp
    then have "toSnakeCase es = fold (\<lambda>e r. AList.update (fst e) (snd e) r) es []"
      by (simp add: toSnakeCase_def loop_fold)
    also from n have "\<dots> = es" by (simp add: fold_update_distinct)
    finally show "shapeValue (JObj es) = JObj es" by (simp add: shapeValue_def)
  qed
next
  case 3
  show ?case by (simp add: storedEntries_def)
next
  case (4 k v es)
  then show ?case by (simp add: storedEntries_Cons shapeEntry_pair snakeKey_fixed)
qed (simp_all add: shapeValue_def)

lemma toSnakeCase_idem: "toSnakeCase (toSnakeCase obj) = toSnakeCase obj"
  using normal_fixed(1) [of "JObj (toSnakeCase obj)"] normal_toSnakeCase [of obj]
  by (simp add: shapeValue_def)

lemma normal_imp:
  "(normal v \<longrightarrow> noAbsent v \<and> snakeKeys v)"
  "(normalEntries es \<longrightarrow> noAbsentEntries es \<and> snakeKeysEntries es)"
  by (induction v and es rule: normal_normalEntries.induct) simp_all

lemma map_of_rev_None: "k \<notin> fst ` set xs \<Longrightarrow> map_of (rev xs) k = None"
  by (simp add: map_of_eq_None_iff)

lemma lookup_origin:
  assumes "map_of (toSnakeCase obj) k' = Some v'"
  shows "\<exists>k v. (k, v) \<in> set obj \<and> present v \<and> k' = snakeKey k \<and> v' = shapeValue v"
proof -
  from assms have "(k', v') \<in> set (rev (storedEntries obj))"
    by (simp only: map_of_toSnakeCase) (rule map_of_SomeD)
  then obtain e where e: "e \<in> set obj" "present (snd e)" "(k', v') = shapeEntry e"
    by (auto simp: set_storedEntries)
  obtain k v where kv: "e = (k, v)"
    by (cases e)
  from e kv have "(k, v) \<in> set obj \<and> present v \<and> k' = snakeKey k \<and> v' = shapeValue v"
    by (simp add: shapeEntry_pair)
  then show ?thesis by blast
qed

lemma lookup_last_wins:
  assumes "present v"
    and "snakeKey k \<noteq> ''__proto__''"
    and "snakeKey k \<notin> set (map (\<lambda>e. snakeKey (fst e)) (filter (\<lambda>e. present (snd e)) post))"
  shows "map_of (toSnakeCase (pre @ (k, v) # post)) (snakeKey k) = Some (shapeValue v)"
proof -
  have "snakeKey k \<notin> fst ` set (storedEntries post)"
  proof
    assume "snakeKey k \<in> fst ` set (storedEntries post)"
    then obtain e where e: "e \<in> set post" "present (snd e)" "snakeKey k = snakeKey (fst e)"
      by (auto simp: set_storedEntries fst_shapeEntry)
    from e(1,2) have "snakeKey (fst e) \<in> (\<lambda>e. snakeKey (fst e)) ` {x \<in> set post. present (snd x)}"
      by blast
    with e(3) assms(3) show False
      by simp
  qed
  then have none: "map_of (rev (storedEntries post)) (snakeKey k) = None"
    by (rule map_of_rev_None)
  have "storedEntries (pre @ (k, v) # post) = storedEntries pre @ shapeEntry (k, v) # storedEntries post"
    using assms(1,2) by (simp add: storedEntries_def fst_shapeEntry)
  then show ?thesis
    using none by (simp add: map_of_toSnakeCase map_add_def shapeEntry_pair)
qed

text \<open>What \<open>wrapBody\<close> does for every parameter record: the envelope, the lookups of the
  shaped attributes, and the absence of \<open>null\<close>, \<open>undefined\<close> and capital-letter keys.\<close>

lemma wrapBody_general:
  "wrapBody attributes = JObj [(''data'', JObj [(''attributes'', JObj (toSnakeCase attributes))])]
   \<and> map_of (toSnakeCase attributes) = map_of (rev (storedEntries attributes))
   \<and> fst ` set (toSnakeCase attributes)
       = snakeKey ` {k. \<exists>v. (k, v) \<in> set attributes \<and> present v} - {''__proto__''}
   \<and> noAbsent (wrapBody attributes)
   \<and> snakeKeys (wrapBody attributes)"
proof -
  have n: "normalEntries (toSnakeCase attributes)"
    using normal_toSnakeCase [of attributes] by simp
  have "noAbsentEntries (toSnakeCase attributes)" "snakeKeysEntries (toSnakeCase attributes)"
    using normal_imp(2) [of "toSnakeCase attributes"] n by simp_all
  then have "noAbsent (wrapBody attributes)" "snakeKeys (wrapBody attributes)"
    by (simp_all add: wrapBody_def present_def isSnake_def isUpperAZ_def)
  then show ?thesis
    by (simp add: wrapBody_def map_of_toSnakeCase keys_toSnakeCase)
qed

text \<open>
  Claim C1, on the code. The claim requires every entry with a present value to reach the
  body under its underscore key. The code loses one: for the parameters
  \<open>{amount: 10000, metadata: {_Proto__: "x", orderId: "42"}}\<close> the key \<open>_Proto__\<close> has a
  present value and the underscore form \<open>__proto__\<close>, the assignment under that key stores
  nothing, and the body's \<open>metadata\<close> holds \<open>order_id\<close> alone.
\<close>

theorem wrapBody_loses_proto_entry:
  "present (JStr ''x'')
   \<and> snakeKey ''_Proto__'' = ''__proto__''
   \<and> wrapBody [(''amount'', JNum 10000),
                (''metadata'', JObj [(''_Proto__'', JStr ''x''), (''orderId'', JStr ''42'')])]
       = JObj [(''data'', JObj [(''attributes'',
           JObj [(''amount'', JNum 10000), (''metadata'', JObj [(''order_id'', JStr ''42'')])])])]"
  by code_simp

text \<open>
  Claim C2. The key rewriting is idempotent, and is the identity on a key that is already
  in underscore form; \<open>toSnakeCase\<close> applied twice to any record equals \<open>toSnakeCase\<close>
  applied once. Every entry of the result comes from an input entry with a present value,
  under that entry's underscore key, and holds the \<open>toSnakeCase\<close> of the value when the
  value is an object and the very same value otherwise, so that an array is passed on with
  its elements untouched. Conversely, an input entry holding a nested object comes out
  holding the \<open>toSnakeCase\<close> of that object, and one holding an array comes out holding
  the same array, provided the entry is stored at all (its underscore key is not
  \<open>__proto__\<close>) and no later kept entry overwrites it under the same underscore key.
\<close>

theorem toSnakeCase_idempotent_recursive_not_arrays:
  "snakeKey (snakeKey k) = snakeKey k
   \<and> (isSnake k \<longrightarrow> snakeKey k = k)
   \<and> toSnakeCase (toSnakeCase obj) = toSnakeCase obj
   \<and> (map_of (toSnakeCase obj) k' = Some v' \<longrightarrow>
        (\<exists>k v. (k, v) \<in> set obj \<and> present v \<and> k' = snakeKey k
               \<and> v' = (case v of JObj inner \<Rightarrow> JObj (toSnakeCase inner) | _ \<Rightarrow> v)))
   \<and> (snakeKey k \<noteq> ''__proto__''
        \<and> snakeKey k \<notin> set (map (\<lambda>e. snakeKey (fst e)) (filter (\<lambda>e. present (snd e)) post)) \<longrightarrow>
        map_of (toSnakeCase (pre @ (k, JObj inner) # post)) (snakeKey k) = Some (JObj (toSnakeCase inner))
      \<and> map_of (toSnakeCase (pre @ (k, JArr xs) # post)) (snakeKey k) = Some (JArr xs))"
proof -
  have p: "present (JObj inner)" "present (JArr xs)"
    by (simp_all add: present_def)
  have a: "map_of (toSnakeCase obj) k' = Some v' \<longrightarrow>
        (\<exists>k v. (k, v) \<in> set obj \<and> present v \<and> k' = snakeKey k
               \<and> v' = (case v of JObj inner \<Rightarrow> JObj (toSnakeCase inner) | _ \<Rightarrow> v))"
    using lookup_origin [of obj k' v'] by (simp add: shapeValue_def)
  have b: "snakeKey k \<noteq> ''__proto__''
        \<and> snakeKey k \<notin> set (map (\<lambda>e. snakeKey (fst e)) (filter (\<lambda>e. present (snd e)) post)) \<longrightarrow>
        map_of (toSnakeCase (pre @ (k, JObj inner) # post)) (snakeKey k) = Some (JObj (toSnakeCase inner))
      \<and> map_of (toSnakeCase (pre @ (k, JArr xs) # post)) (snakeKey k) = Some (JArr xs)"
    using lookup_last_wins [OF p(1), of k post pre] lookup_last_wins [OF p(2), of k post pre]
    by (simp add: shapeValue_def)
  from a b show ?thesis
    by (simp add: snakeKey_idem snakeKey_fixed toSnakeCase_idem)
qed

theorem toSnakeCase_idempotent_recursive_not_arrays_witness:
  "isSnake ''line_items''
   \<and> snakeKey ''line_items'' = ''line_items''
   \<and> snakeKey ''lineItems'' \<noteq> ''__proto__''
   \<and> snakeKey ''lineItems'' \<notin> set (map (\<lambda>e. snakeKey (fst e)) (filter (\<lambda>e. present (snd e)) [(''cancelUrl'', JNull)]))
   \<and> map_of (toSnakeCase ([(''description'', JStr ''d'')]
                 @ (''lineItems'', JObj [(''unitPrice'', JNum 5)]) # [(''cancelUrl'', JNull)])) (snakeKey ''lineItems'')
       = Some (JObj (toSnakeCase [(''unitPrice'', JNum 5)]))
   \<and> map_of (toSnakeCase ([(''description'', JStr ''d'')]
                 @ (''lineItems'', JArr [JObj [(''unitPrice'', JNull)]]) # [(''cancelUrl'', JNull)])) (snakeKey ''lineItems'')
       = Some (JArr [JObj [(''unitPrice'', JNull)]])
   \<and> map_of (toSnakeCase [(''lineItems'', JArr [JObj [(''unitPrice'', JNull)]])]) ''line_items''
       = Some (JArr [JObj [(''unitPrice'', JNull)]])
   \<and> (\<exists>k v. (k, v) \<in> set [(''lineItems'', JArr [JObj [(''unitPrice'', JNull)]])] \<and> present v
          \<and> ''line_items'' = snakeKey k
          \<and> JArr [JObj [(''unitPrice'', JNull)]] = (case v of JObj inner \<Rightarrow> JObj (toSnakeCase inner) | _ \<Rightarrow> v))"
proof -
  let ?post = "[(''cancelUrl'', JNull)]"
  let ?pre = "[(''description'', JStr ''d'')]"
  let ?arr = "JArr [JObj [(''unitPrice'', JNull)]]"
  let ?one = "[(''lineItems'', ?arr)]"
  have h1: "isSnake ''line_items''"
    by code_simp
  have h2: "snakeKey ''lineItems'' \<noteq> ''__proto__''
      \<and> snakeKey ''lineItems'' \<notin> set (map (\<lambda>e. snakeKey (fst e)) (filter (\<lambda>e. present (snd e)) ?post))"
    by code_simp
  have h3: "map_of (toSnakeCase ?one) ''line_items'' = Some ?arr"
    by code_simp
  note c1 = toSnakeCase_idempotent_recursive_not_arrays [of "''line_items''",
      THEN conjunct2, THEN conjunct1, THEN mp, OF h1]
  note c2 = toSnakeCase_idempotent_recursive_not_arrays
      [of "''lineItems''" _ _ _ ?post ?pre "[(''unitPrice'', JNum 5)]" "[JObj [(''unitPrice'', JNull)]]",
       THEN conjunct2, THEN conjunct2, THEN conjunct2, THEN conjunct2, THEN mp, OF h2]
  note c3 = toSnakeCase_idempotent_recursive_not_arrays [of _ ?one "''line_items''" ?arr,
      THEN conjunct2, THEN conjunct2, THEN conjunct2, THEN conjunct1, THEN mp, OF h3]
  from h1 c1 h2 c2 h3 c3 show ?thesis
    by (intro conjI) (erule conjunct1 conjunct2 | assumption)+
qed

section \<open>Error construction\<close>

lemma fromResponse_none_listed:
  assumes "noErrorsListed bdy"
  shows "code (fromResponse st bdy) = JStr ''unknown_error''"
    and "message (fromResponse st bdy) = fallbackMessage st"
    and "errors (fromResponse st bdy) = JArr []"
proof -
  have "nullish (optProp bdy ''errors'') (JArr []) = JArr []"
    using assms
    by (cases bdy) (auto simp: noErrorsListed_def nullish_def optProp_def present_def split: option.splits)
  then show "code (fromResponse st bdy) = JStr ''unknown_error''"
    and "message (fromResponse st bdy) = fallbackMessage st"
    and "errors (fromResponse st bdy) = JArr []"
    by (simp_all add: fromResponse_def Let_def nullish_def optProp_def present_def fallbackMessage_def)
qed

lemma fromResponse_first_detail:
  assumes "map_of es ''errors'' = Some (JArr (JObj d # ds))"
  shows "errors (fromResponse st (JObj es)) = JArr (JObj d # ds)"
    and "code (fromResponse st (JObj es)) = nullish (getProp (JObj d) ''code'') (JStr ''unknown_error'')"
    and "message (fromResponse st (JObj es))
         = js_String (nullish (getProp (JObj d) ''detail'') (JStr (fallbackMessage st)))"
  using assms
  by (simp_all add: fromResponse_def Let_def nullish_def optProp_def present_def fallbackMessage_def)

text \<open>
  Claim C3 (amended). For every status and response body, the error built by
  \<open>fromResponse\<close> has the given status and keeps the raw body. When the body lists no
  error detail (it is not an object, or its \<open>errors\<close> is missing, \<open>null\<close> or the empty
  array), the code is \<open>unknown_error\<close>, the message is the text
  \<open>PayMongo API error (status N)\<close> with \<open>N\<close> the status in decimal, and the retained list is
  empty. When \<open>errors\<close> is an array whose first element is an object, the whole array is
  retained, the code is that element's \<open>code\<close> (or \<open>unknown_error\<close> when it has none) and
  the message is that element's \<open>detail\<close> text (or the fallback text when it has none).
\<close>

theorem fromResponse_exposes:
  "status (fromResponse st bdy) = st
   \<and> rawResponse (fromResponse st bdy) = bdy
   \<and> (noErrorsListed bdy \<longrightarrow>
        code (fromResponse st bdy) = JStr ''unknown_error''
        \<and> message (fromResponse st bdy) = ''PayMongo API error (status '' @ showNat st @ '')''
        \<and> errors (fromResponse st bdy) = JArr [])
   \<and> (map_of es ''errors'' = Some (JArr (JObj d # ds)) \<longrightarrow>
        errors (fromResponse st (JObj es)) = JArr (JObj d # ds)
        \<and> (map_of d ''code'' = Some (JStr c) \<longrightarrow> code (fromResponse st (JObj es)) = JStr c)
        \<and> (map_of d ''code'' = None \<longrightarrow> code (fromResponse st (JObj es)) = JStr ''unknown_error'')
        \<and> (map_of d ''detail'' = Some (JStr m) \<longrightarrow> message (fromResponse st (JObj es)) = m)
        \<and> (map_of d ''detail'' = None \<longrightarrow>
             message (fromResponse st (JObj es)) = ''PayMongo API error (status '' @ showNat st @ '')''))"
proof -
  have "status (fromResponse st bdy) = st" "rawResponse (fromResponse st bdy) = bdy"
    by (simp_all add: fromResponse_def Let_def)
  moreover have "noErrorsListed bdy \<longrightarrow>
        code (fromResponse st bdy) = JStr ''unknown_error''
        \<and> message (fromResponse st bdy) = ''PayMongo API error (status '' @ showNat st @ '')''
        \<and> errors (fromResponse st bdy) = JArr []"
    using fromResponse_none_listed [of bdy st] by (simp add: fallbackMessage_def)
  moreover have "map_of es ''errors'' = Some (JArr (JObj d # ds)) \<longrightarrow>
        errors (fromResponse st (JObj es)) = JArr (JObj d # ds)
        \<and> (map_of d ''code'' = Some (JStr c) \<longrightarrow> code (fromResponse st (JObj es)) = JStr c)
        \<and> (map_of d ''code'' = None \<longrightarrow> code (fromResponse st (JObj es)) = JStr ''unknown_error'')
        \<and> (map_of d ''detail'' = Some (JStr m) \<longrightarrow> message (fromResponse st (JObj es)) = m)
        \<and> (map_of d ''detail'' = None \<longrightarrow>
             message (fromResponse st (JObj es)) = ''PayMongo API error (status '' @ showNat st @ '')'')"
    using fromResponse_first_detail [of es d ds st]
    by (simp add: nullish_def present_def fallbackMessage_def)
  ultimately show ?thesis by blast
qed

theorem fromResponse_exposes_witness:
  "map_of [(''errors'', JArr [JObj [(''code'', JStr ''parameter_invalid''), (''detail'', JStr ''amount is required'')]])] ''errors''
     = Some (JArr (JObj [(''code'', JStr ''parameter_invalid''), (''detail'', JStr ''amount is required'')] # []))
   \<and> map_of [(''code'', JStr ''parameter_invalid''), (''detail'', JStr ''amount is required'')] ''code'' = Some (JStr ''parameter_invalid'')
   \<and> map_of [(''code'', JStr ''parameter_invalid''), (''detail'', JStr ''amount is required'')] ''detail'' = Some (JStr ''amount is required'')
   \<and> status (fromResponse 400 (JObj [(''errors'', JArr [JObj [(''code'', JStr ''parameter_invalid''), (''detail'', JStr ''amount is required'')]])])) = 400
   \<and> code (fromResponse 400 (JObj [(''errors'', JArr [JObj [(''code'', JStr ''parameter_invalid''), (''detail'', JStr ''amount is required'')]])])) = JStr ''parameter_invalid''
   \<and> message (fromResponse 400 (JObj [(''errors'', JArr [JObj [(''code'', JStr ''parameter_invalid''), (''detail'', JStr ''amount is required'')]])])) = ''amount is required''
   \<and> errors (fromResponse 400 (JObj [(''errors'', JArr [JObj [(''code'', JStr ''parameter_invalid''), (''detail'', JStr ''amount is required'')]])]))
       = JArr [JObj [(''code'', JStr ''parameter_invalid''), (''detail'', JStr ''amount is required'')]]
   \<and> noErrorsListed JNull
   \<and> code (fromResponse 500 JNull) = JStr ''unknown_error''
   \<and> message (fromResponse 500 JNull) = ''PayMongo API error (status 500)''
   \<and> errors (fromResponse 500 JNull) = JArr []
   \<and> map_of [(''errors'', JArr [JObj []])] ''errors'' = Some (JArr (JObj [] # []))
   \<and> map_of ([] :: (string \<times> json) list) ''code'' = None
   \<and> map_of ([] :: (string \<times> json) list) ''detail'' = None
   \<and> code (fromResponse 422 (JObj [(''errors'', JArr [JObj []])])) = JStr ''unknown_error''
   \<and> message (fromResponse 422 (JObj [(''errors'', JArr [JObj []])])) = ''PayMongo API error (status 422)''"
proof -
  let ?d = "[(''code'', JStr ''parameter_invalid''), (''detail'', JStr ''amount is required'')]"
  let ?es = "[(''errors'', JArr [JObj ?d])]"
  let ?es' = "[(''errors'', JArr [JObj []])]"
  have h1: "map_of ?es ''errors'' = Some (JArr (JObj ?d # []))" by simp
  have h2: "map_of ?d ''code'' = Some (JStr ''parameter_invalid'')" by simp
  have h3: "map_of ?d ''detail'' = Some (JStr ''amount is required'')" by simp
  have h4: "noErrorsListed JNull" by (simp add: noErrorsListed_def)
  have h5: "map_of ?es' ''errors'' = Some (JArr (JObj [] # []))" by simp
  have h6: "map_of ([] :: (string \<times> json) list) ''code'' = None" by simp
  have h7: "map_of ([] :: (string \<times> json) list) ''detail'' = None" by simp
  have s: "showNat 500 = ''500''" "showNat 422 = ''422''" by code_simp+
  note a = fromResponse_exposes [of 400 "JObj ?es" ?es ?d "[]" "''parameter_invalid''" "''amount is required''"]
  note b = fromResponse_exposes [of 500 JNull]
  note c = fromResponse_exposes [of 422 _ ?es' "[]" "[]"]
  from a h1 h2 h3 have "status (fromResponse 400 (JObj ?es)) = 400"
    "code (fromResponse 400 (JObj ?es)) = JStr ''parameter_invalid''"
    "message (fromResponse 400 (JObj ?es)) = ''amount is required''"
    "errors (fromResponse 400 (JObj ?es)) = JArr [JObj ?d]"
    by blast+
  moreover from b h4 s(1) have "code (fromResponse 500 JNull) = JStr ''unknown_error''"
    "message (fromResponse 500 JNull) = ''PayMongo API error (status 500)''"
    "errors (fromResponse 500 JNull) = JArr []"
    by simp_all
  moreover from c h5 h6 h7 have "code (fromResponse 422 (JObj ?es')) = JStr ''unknown_error''"
    "message (fromResponse 422 (JObj ?es')) = ''PayMongo API error (status '' @ showNat 422 @ '')''"
    by blast+
  moreover note h1 h2 h3 h4 h5 h6 h7 s(2)
  ultimately show ?thesis by simp
qed

text \<open>Claim C3 as stated does not hold: the fallback text begins with the vendor's name, so
  for status 500 and an empty body the message is not \<open>API error (status 500)\<close>.\<close>

theorem fromResponse_fallback_text_counterexample:
  "message (fromResponse 500 JNull) = ''PayMongo API error (status 500)''
   \<and> message (fromResponse 500 JNull) \<noteq> ''API error (status 500)''"
proof -
  have "message (fromResponse 500 JNull) = ''PayMongo API error (status 500)''"
    by code_simp
  then show ?thesis by simp
qed

section \<open>Transport\<close>

lemma request_by_outcome:
  "request pf cfg options =
     (case fetchOutcome pf cfg options of
        None \<Rightarrow> Inl TypeError
      | Some (FetchRejected err) \<Rightarrow>
          Inl (PayMongoNetworkError ''Network error while communicating with PayMongo API'' err)
      | Some (FetchResolved response) \<Rightarrow>
          if resp_ok response then Inr (parseBody pf response)
          else Inl (ApiError (fromResponse (resp_status response) (parseBody pf response))))"
  by (simp add: request_def fetchOutcome_def Let_def split: option.splits prod.splits fetch_result.splits)

text \<open>
  Claim C4. A request ends in a \<open>PayMongoNetworkError\<close> exactly when the \<open>fetch\<close> call it issues
  is rejected, and the error then wraps the cause of the rejection; it ends in an API
  error exactly when \<open>fetch\<close> resolves with a status outside 200 to 299, the error being
  built from that status and the parsed body; and when \<open>fetch\<close> resolves with a status
  from 200 to 299 the request returns the parsed body and raises nothing.
\<close>

theorem request_error_classification:
  "((\<exists>m c. request pf cfg options = Inl (PayMongoNetworkError m c))
      \<longleftrightarrow> (\<exists>c. fetchOutcome pf cfg options = Some (FetchRejected c)))
   \<and> (fetchOutcome pf cfg options = Some (FetchRejected c) \<longrightarrow>
        request pf cfg options
          = Inl (PayMongoNetworkError ''Network error while communicating with PayMongo API'' c))
   \<and> ((\<exists>e. request pf cfg options = Inl (ApiError e))
      \<longleftrightarrow> (\<exists>r. fetchOutcome pf cfg options = Some (FetchResolved r)
                \<and> \<not> (200 \<le> resp_status r \<and> resp_status r \<le> 299)))
   \<and> (fetchOutcome pf cfg options = Some (FetchResolved r)
        \<and> \<not> (200 \<le> resp_status r \<and> resp_status r \<le> 299) \<longrightarrow>
        request pf cfg options = Inl (ApiError (fromResponse (resp_status r) (parseBody pf r))))
   \<and> (fetchOutcome pf cfg options = Some (FetchResolved r)
        \<and> 200 \<le> resp_status r \<and> resp_status r \<le> 299 \<longrightarrow>
        request pf cfg options = Inr (parseBody pf r))"
proof (cases "fetchOutcome pf cfg options")
  case None
  then show ?thesis by (simp add: request_by_outcome)
next
  case (Some outcome)
  show ?thesis
  proof (cases outcome)
    case (FetchRejected err)
    with Some show ?thesis by (simp add: request_by_outcome)
  next
    case (FetchResolved response)
    with Some show ?thesis by (simp add: request_by_outcome resp_ok_def)
  qed
qed

theorem request_error_classification_witness:
  "fetchOutcome (fixedPlatform (FetchRejected ''ECONNREFUSED'') (\<lambda>t. None))
       \<lparr>apiKey = ''sk_test_abc'', resolvedBaseUrl = ''https://api.paymongo.com/v1'', isPublicKey = False\<rparr>
       \<lparr>req_method = GET, path = ''/customers'', body = JUndefined, params = None\<rparr>
     = Some (FetchRejected ''ECONNREFUSED'')
   \<and> request (fixedPlatform (FetchRejected ''ECONNREFUSED'') (\<lambda>t. None))
       \<lparr>apiKey = ''sk_test_abc'', resolvedBaseUrl = ''https://api.paymongo.com/v1'', isPublicKey = False\<rparr>
       \<lparr>req_method = GET, path = ''/customers'', body = JUndefined, params = None\<rparr>
     = Inl (PayMongoNetworkError ''Network error while communicating with PayMongo API'' ''ECONNREFUSED'')
   \<and> fetchOutcome (fixedPlatform (FetchResolved \<lparr>resp_status = 404, resp_text = Some []\<rparr>) (\<lambda>t. None))
       \<lparr>apiKey = ''sk_test_abc'', resolvedBaseUrl = ''https://api.paymongo.com/v1'', isPublicKey = False\<rparr>
       \<lparr>req_method = GET, path = ''/customers'', body = JUndefined, params = None\<rparr>
     = Some (FetchResolved \<lparr>resp_status = 404, resp_text = Some []\<rparr>)
   \<and> \<not> (200 \<le> resp_status \<lparr>resp_status = 404, resp_text = Some []\<rparr>
          \<and> resp_status \<lparr>resp_status = 404, resp_text = Some []\<rparr> \<le> 299)
   \<and> request (fixedPlatform (FetchResolved \<lparr>resp_status = 404, resp_text = Some []\<rparr>) (\<lambda>t. None))
       \<lparr>apiKey = ''sk_test_abc'', resolvedBaseUrl = ''https://api.paymongo.com/v1'', isPublicKey = False\<rparr>
       \<lparr>req_method = GET, path = ''/customers'', body = JUndefined, params = None\<rparr>
     = Inl (ApiError (fromResponse 404 JNull))
   \<and> fetchOutcome (fixedPlatform (FetchResolved \<lparr>resp_status = 200, resp_text = Some ''1''\<rparr>) (\<lambda>t. Some (JNum 1)))
       \<lparr>apiKey = ''sk_test_abc'', resolvedBaseUrl = ''https://api.paymongo.com/v1'', isPublicKey = False\<rparr>
       \<lparr>req_method = GET, path = ''/customers'', body = JUndefined, params = None\<rparr>
     = Some (FetchResolved \<lparr>resp_status = 200, resp_text = Some ''1''\<rparr>)
   \<and> request (fixedPlatform (FetchResolved \<lparr>resp_status = 200, resp_text = Some ''1''\<rparr>) (\<lambda>t. Some (JNum 1)))
       \<lparr>apiKey = ''sk_test_abc'', resolvedBaseUrl = ''https://api.paymongo.com/v1'', isPublicKey = False\<rparr>
       \<lparr>req_method = GET, path = ''/customers'', body = JUndefined, params = None\<rparr>
     = Inr (JNum 1)"
proof -
  let ?cfg = "\<lparr>apiKey = ''sk_test_abc'', resolvedBaseUrl = ''https://api.paymongo.com/v1'', isPublicKey = False\<rparr>"
  let ?opt = "\<lparr>req_method = GET, path = ''/customers'', body = JUndefined, params = None\<rparr>"
  let ?r404 = "\<lparr>resp_status = 404, resp_text = Some []\<rparr>"
  let ?r200 = "\<lparr>resp_status = 200, resp_text = Some ''1''\<rparr>"
  let ?pf1 = "fixedPlatform (FetchRejected ''ECONNREFUSED'') (\<lambda>t. None)"
  let ?pf2 = "fixedPlatform (FetchResolved ?r404) (\<lambda>t. None)"
  let ?pf3 = "fixedPlatform (FetchResolved ?r200) (\<lambda>t. Some (JNum 1))"
  have o1: "fetchOutcome ?pf1 ?cfg ?opt = Some (FetchRejected ''ECONNREFUSED'')"
    by (simp add: fetchOutcome_def prepareFetch_def buildUrl_def fixedPlatform_def)
  have o2: "fetchOutcome ?pf2 ?cfg ?opt = Some (FetchResolved ?r404)"
    by (simp add: fetchOutcome_def prepareFetch_def buildUrl_def fixedPlatform_def)
  have o3: "fetchOutcome ?pf3 ?cfg ?opt = Some (FetchResolved ?r200)"
    by (simp add: fetchOutcome_def prepareFetch_def buildUrl_def fixedPlatform_def)
  have s2: "\<not> (200 \<le> resp_status ?r404 \<and> resp_status ?r404 \<le> 299)" by simp
  have s3: "200 \<le> resp_status ?r200 \<and> resp_status ?r200 \<le> 299" by simp
  have p2: "parseBody ?pf2 ?r404 = JNull" by (simp add: parseBody_def)
  have p3: "parseBody ?pf3 ?r200 = JNum 1" by (simp add: parseBody_def fixedPlatform_def)
  from request_error_classification [of ?pf1 ?cfg ?opt "''ECONNREFUSED''"] o1
  have r1: "request ?pf1 ?cfg ?opt
      = Inl (PayMongoNetworkError ''Network error while communicating with PayMongo API'' ''ECONNREFUSED'')"
    by blast
  from request_error_classification [of ?pf2 ?cfg ?opt _ ?r404] o2 s2
  have "request ?pf2 ?cfg ?opt = Inl (ApiError (fromResponse (resp_status ?r404) (parseBody ?pf2 ?r404)))"
    by blast
  with p2 have r2: "request ?pf2 ?cfg ?opt = Inl (ApiError (fromResponse 404 JNull))"
    by simp
  from request_error_classification [of ?pf3 ?cfg ?opt _ ?r200] o3 s3
  have "request ?pf3 ?cfg ?opt = Inr (parseBody ?pf3 ?r200)"
    by blast
  with p3 have r3: "request ?pf3 ?cfg ?opt = Inr (JNum 1)"
    by simp
  from o1 r1 o2 s2 r2 o3 r3 show ?thesis
    by (intro conjI)
qed

text \<open>
  Claim C8. When \<open>fetch\<close> resolves with a status from 200 to 299, an empty response text
  makes the request return \<open>null\<close>, and so does a non-empty text that the JSON parser
  rejects: the parse failure is swallowed. A text that parses is returned as parsed.
\<close>

theorem request_success_body_absent:
  "fetchOutcome pf cfg options = Some (FetchResolved r) \<and> 200 \<le> resp_status r \<and> resp_status r \<le> 299 \<longrightarrow>
     (resp_text r = Some [] \<longrightarrow> request pf cfg options = Inr JNull)
     \<and> (resp_text r = Some t \<and> t \<noteq> [] \<and> JSON_parse pf t = None \<longrightarrow> request pf cfg options = Inr JNull)
     \<and> (resp_text r = Some t \<and> t \<noteq> [] \<and> JSON_parse pf t = Some v \<longrightarrow> request pf cfg options = Inr v)"
  by (simp add: request_by_outcome resp_ok_def parseBody_def)

theorem request_success_body_absent_witness:
  "fetchOutcome (fixedPlatform (FetchResolved \<lparr>resp_status = 200, resp_text = Some ''<html>''\<rparr>) (\<lambda>t. None))
       \<lparr>apiKey = ''sk_test_abc'', resolvedBaseUrl = ''https://api.paymongo.com/v1'', isPublicKey = False\<rparr>
       \<lparr>req_method = GET, path = ''/customers'', body = JUndefined, params = None\<rparr>
     = Some (FetchResolved \<lparr>resp_status = 200, resp_text = Some ''<html>''\<rparr>)
   \<and> JSON_parse (fixedPlatform (FetchResolved \<lparr>resp_status = 200, resp_text = Some ''<html>''\<rparr>) (\<lambda>t. None)) ''<html>'' = None
   \<and> request (fixedPlatform (FetchResolved \<lparr>resp_status = 200, resp_text = Some ''<html>''\<rparr>) (\<lambda>t. None))
       \<lparr>apiKey = ''sk_test_abc'', resolvedBaseUrl = ''https://api.paymongo.com/v1'', isPublicKey = False\<rparr>
       \<lparr>req_method = GET, path = ''/customers'', body = JUndefined, params = None\<rparr>
     = Inr JNull
   \<and> fetchOutcome (fixedPlatform (FetchResolved \<lparr>resp_status = 204, resp_text = Some []\<rparr>) (\<lambda>t. None))
       \<lparr>apiKey = ''sk_test_abc'', resolvedBaseUrl = ''https://api.paymongo.com/v1'', isPublicKey = False\<rparr>
       \<lparr>req_method = DELETE, path = ''/customers/cus_1'', body = JUndefined, params = None\<rparr>
     = Some (FetchResolved \<lparr>resp_status = 204, resp_text = Some []\<rparr>)
   \<and> request (fixedPlatform (FetchResolved \<lparr>resp_status = 204, resp_text = Some []\<rparr>) (\<lambda>t. None))
       \<lparr>apiKey = ''sk_test_abc'', resolvedBaseUrl = ''https://api.paymongo.com/v1'', isPublicKey = False\<rparr>
       \<lparr>req_method = DELETE, path = ''/customers/cus_1'', body = JUndefined, params = None\<rparr>
     = Inr JNull"
proof -
  let ?cfg = "\<lparr>apiKey = ''sk_test_abc'', resolvedBaseUrl = ''https://api.paymongo.com/v1'', isPublicKey = False\<rparr>"
  let ?opt = "\<lparr>req_method = GET, path = ''/customers'', body = JUndefined, params = None\<rparr>"
  let ?del = "\<lparr>req_method = DELETE, path = ''/customers/cus_1'', body = JUndefined, params = None\<rparr>"
  let ?rh = "\<lparr>resp_status = 200, resp_text = Some ''<html>''\<rparr>"
  let ?re = "\<lparr>resp_status = 204, resp_text = Some []\<rparr>"
  let ?pf1 = "fixedPlatform (FetchResolved ?rh) (\<lambda>t. None)"
  let ?pf2 = "fixedPlatform (FetchResolved ?re) (\<lambda>t. None)"
  have o1: "fetchOutcome ?pf1 ?cfg ?opt = Some (FetchResolved ?rh)"
    by (simp add: fetchOutcome_def prepareFetch_def buildUrl_def fixedPlatform_def)
  have o2: "fetchOutcome ?pf2 ?cfg ?del = Some (FetchResolved ?re)"
    by (simp add: fetchOutcome_def prepareFetch_def buildUrl_def fixedPlatform_def)
  have j: "JSON_parse ?pf1 ''<html>'' = None"
    by (simp add: fixedPlatform_def)
  from request_success_body_absent [of ?pf1 ?cfg ?opt ?rh "''<html>''"] o1 j
  have r1: "request ?pf1 ?cfg ?opt = Inr JNull"
    by simp
  from request_success_body_absent [of ?pf2 ?cfg ?del ?re] o2
  have r2: "request ?pf2 ?cfg ?del = Inr JNull"
    by simp
  from o1 j r1 o2 r2 show ?thesis
    by (intro conjI)
qed

section \<open>Query parameters\<close>

lemma appendParams_eq:
  "appendParams entries sp
     = sp @ map (\<lambda>e. (fst e, js_String (snd e))) (filter (\<lambda>e. snd e \<noteq> JUndefined) entries)"
  by (induction entries sp rule: appendParams.induct) simp_all

text \<open>
  Claim C6. The loop over the query-parameter entries appends, in order, exactly the
  entries whose value is not \<open>undefined\<close>, each as its key and the string of its value, and
  appends nothing for the others; the built URL is the resolved URL with these pairs added
  to its query. For \<open>{after: "cus_1", limit: undefined}\<close> the only pair is
  \<open>after=cus_1\<close>, and on a URL without a query of its own the result ends in
  \<open>?after=cus_1\<close>.
\<close>

theorem buildUrl_appends_defined_params:
  "appendParams entries sp
     = sp @ map (\<lambda>e. (fst e, js_String (snd e))) (filter (\<lambda>e. snd e \<noteq> JUndefined) entries)
   \<and> (new_URL pf pth (resolvedBaseUrl cfg) = Some url \<longrightarrow>
        buildUrl pf cfg pth (Some entries)
          = Some (URL_toString (url\<lparr>searchParams :=
              searchParams url @ map (\<lambda>e. (fst e, js_String (snd e))) (filter (\<lambda>e. snd e \<noteq> JUndefined) entries)\<rparr>)))
   \<and> appendParams [(''after'', JStr ''cus_1''), (''limit'', JUndefined)] [] = [(''after'', ''cus_1'')]
   \<and> (new_URL pf pth (resolvedBaseUrl cfg) = Some \<lparr>href_before_query = h, searchParams = []\<rparr> \<longrightarrow>
        buildUrl pf cfg pth (Some [(''after'', JStr ''cus_1''), (''limit'', JUndefined)])
          = Some (h @ ''?after=cus_1''))"
proof -
  have q: "serializeParams [(''after'', ''cus_1'')] = ''after=cus_1''"
    by code_simp
  show ?thesis
    by (simp add: appendParams_eq buildUrl_def URL_toString_def q del: serializeParams.simps)
qed

theorem buildUrl_appends_defined_params_witness:
  "new_URL (fixedPlatform (FetchRejected []) (\<lambda>t. None)) ''/customers''
       (resolvedBaseUrl \<lparr>apiKey = ''sk_test_abc'', resolvedBaseUrl = ''https://api.paymongo.com/v1'', isPublicKey = False\<rparr>)
     = Some \<lparr>href_before_query = ''https://api.paymongo.com/v1/customers'', searchParams = []\<rparr>
   \<and> buildUrl (fixedPlatform (FetchRejected []) (\<lambda>t. None))
        \<lparr>apiKey = ''sk_test_abc'', resolvedBaseUrl = ''https://api.paymongo.com/v1'', isPublicKey = False\<rparr>
        ''/customers'' (Some [(''after'', JStr ''cus_1''), (''limit'', JUndefined)])
     = Some ''https://api.paymongo.com/v1/customers?after=cus_1''"
proof -
  let ?pf = "fixedPlatform (FetchRejected []) (\<lambda>t. None)"
  let ?cfg = "\<lparr>apiKey = ''sk_test_abc'', resolvedBaseUrl = ''https://api.paymongo.com/v1'', isPublicKey = False\<rparr>"
  have u: "new_URL ?pf ''/customers'' (resolvedBaseUrl ?cfg)
      = Some \<lparr>href_before_query = ''https://api.paymongo.com/v1/customers'', searchParams = []\<rparr>"
    by (simp add: fixedPlatform_def)
  from buildUrl_appends_defined_params [of _ _ ?pf "''/customers''" ?cfg _ "''https://api.paymongo.com/v1/customers''"] u
  have "buildUrl ?pf ?cfg ''/customers'' (Some [(''after'', JStr ''cus_1''), (''limit'', JUndefined)])
      = Some (''https://api.paymongo.com/v1/customers'' @ ''?after=cus_1'')"
    by blast
  with u show ?thesis by simp
qed

section \<open>Authorization header\<close>










section \<open>Facade construction and the shared instance\<close>

lemma startsWith_nonempty: "startsWith s p \<Longrightarrow> p \<noteq> [] \<Longrightarrow> s \<noteq> []"
  by (auto simp: startsWith_def)

lemma resolveConfig_neither:
  "\<not> truthyKey (publicKey cfg) \<Longrightarrow> \<not> truthyKey (secretKey cfg) \<Longrightarrow> \<exists>m. resolveConfig cfg = Inl (PayMongoConfigError m)"
  by (simp add: resolveConfig_def)

lemma resolveConfig_secret:
  assumes "secretKey cfg = Some sk" "sk \<noteq> []"
  shows \<open>resolveConfig cfg =
     (if startsWith sk ''sk_''
      then Inr \<lparr>apiKey = sk,
                resolvedBaseUrl = (if truthyKey (baseUrl cfg) then the (baseUrl cfg) else DEFAULT_BASE_URL),
                isPublicKey = False\<rparr>
      else Inl (PayMongoConfigError
        ''Invalid secret key format. Secret keys should start with "sk_test_" or "sk_live_".''))\<close>
  using assms by (simp add: resolveConfig_def Let_def)

lemma resolveConfig_public:
  assumes "\<not> truthyKey (secretKey cfg)" "publicKey cfg = Some pk" "pk \<noteq> []"
  shows \<open>resolveConfig cfg =
     (if startsWith pk ''pk_''
      then Inr \<lparr>apiKey = pk,
                resolvedBaseUrl = (if truthyKey (baseUrl cfg) then the (baseUrl cfg) else DEFAULT_BASE_URL),
                isPublicKey = True\<rparr>
      else Inl (PayMongoConfigError
        ''Invalid public key format. Public keys should start with "pk_test_" or "pk_live_".''))\<close>
  using assms by (simp add: resolveConfig_def Let_def)

lemma resolveConfig_error_kind: "resolveConfig cfg = Inl e \<Longrightarrow> \<exists>m. e = PayMongoConfigError m"
  by (auto simp: resolveConfig_def Let_def split: if_splits)

text \<open>
  Claim C5. Resolving a configuration with neither a public nor a secret key (absent or
  empty) fails with a configuration error. With a secret key supplied the client is in secret
  mode, and a secret key that does not start with \<open>sk_\<close> fails with a configuration error;
  with only a public key supplied the client is in public mode, and a public key that
  does not start with \<open>pk_\<close> fails with a configuration error, while one that does is
  resolved as the API key in client-side mode. When both are supplied and the secret key
  starts with \<open>sk_\<close>, the secret key is the resolved API key; and every client constructed
  from a configuration with both keys has the secret key as its API key and reports
  server-side mode.
\<close>

theorem resolveConfig_credentials:
  "(\<not> truthyKey (publicKey cfg) \<and> \<not> truthyKey (secretKey cfg) \<longrightarrow>
      (\<exists>m. resolveConfig cfg = Inl (PayMongoConfigError m)))
   \<and> (secretKey cfg = Some sk \<and> sk \<noteq> [] \<and> \<not> startsWith sk ''sk_'' \<longrightarrow>
      (\<exists>m. resolveConfig cfg = Inl (PayMongoConfigError m)))
   \<and> (\<not> truthyKey (secretKey cfg) \<and> publicKey cfg = Some pk \<and> pk \<noteq> [] \<and> \<not> startsWith pk ''pk_'' \<longrightarrow>
      (\<exists>m. resolveConfig cfg = Inl (PayMongoConfigError m)))
   \<and> (\<not> truthyKey (secretKey cfg) \<and> publicKey cfg = Some pk \<and> startsWith pk ''pk_'' \<longrightarrow>
      (\<exists>rc. resolveConfig cfg = Inr rc \<and> apiKey rc = pk \<and> isPublicKey rc))
   \<and> (truthyKey (publicKey cfg) \<and> secretKey cfg = Some sk \<and> startsWith sk ''sk_'' \<longrightarrow>
      (\<exists>rc. resolveConfig cfg = Inr rc \<and> apiKey rc = sk \<and> \<not> isPublicKey rc))
   \<and> (truthyKey (publicKey cfg) \<and> secretKey cfg = Some sk \<and> sk \<noteq> [] \<and> new_PayMongo cfg s = (Inr p, s') \<longrightarrow>
      apiKey (config p) = sk \<and> isServerSide p \<and> \<not> isClientSide p)"
proof -
  have a: "secretKey cfg = Some sk \<and> sk \<noteq> [] \<and> \<not> startsWith sk ''sk_'' \<longrightarrow>
      (\<exists>m. resolveConfig cfg = Inl (PayMongoConfigError m))"
    using resolveConfig_secret [of cfg sk] by simp
  have b: "\<not> truthyKey (secretKey cfg) \<and> publicKey cfg = Some pk \<and> pk \<noteq> [] \<and> \<not> startsWith pk ''pk_'' \<longrightarrow>
      (\<exists>m. resolveConfig cfg = Inl (PayMongoConfigError m))"
    using resolveConfig_public [of cfg pk] by simp
  have c: "\<not> truthyKey (secretKey cfg) \<and> publicKey cfg = Some pk \<and> startsWith pk ''pk_'' \<longrightarrow>
      (\<exists>rc. resolveConfig cfg = Inr rc \<and> apiKey rc = pk \<and> isPublicKey rc)"
    using resolveConfig_public [of cfg pk] startsWith_nonempty [of pk "''pk_''"] by simp
  have d: "truthyKey (publicKey cfg) \<and> secretKey cfg = Some sk \<and> startsWith sk ''sk_'' \<longrightarrow>
      (\<exists>rc. resolveConfig cfg = Inr rc \<and> apiKey rc = sk \<and> \<not> isPublicKey rc)"
    using resolveConfig_secret [of cfg sk] startsWith_nonempty [of sk "''sk_''"] by simp
  have e: "truthyKey (publicKey cfg) \<and> secretKey cfg = Some sk \<and> sk \<noteq> [] \<and> new_PayMongo cfg s = (Inr p, s') \<longrightarrow>
      apiKey (config p) = sk \<and> isServerSide p \<and> \<not> isClientSide p"
    using resolveConfig_secret [of cfg sk]
    by (auto simp: new_PayMongo_def isServerSide_def isClientSide_def split: if_splits)
  from a b c d e resolveConfig_neither [of cfg] show ?thesis by blast
qed

theorem resolveConfig_credentials_witness:
  "(\<not> truthyKey (publicKey \<lparr>publicKey = None, secretKey = Some [], baseUrl = None\<rparr>)
      \<and> \<not> truthyKey (secretKey \<lparr>publicKey = None, secretKey = Some [], baseUrl = None\<rparr>))
   \<and> (\<exists>m. resolveConfig \<lparr>publicKey = None, secretKey = Some [], baseUrl = None\<rparr> = Inl (PayMongoConfigError m))
   \<and> (\<exists>m. resolveConfig \<lparr>publicKey = Some ''pk_test_1'', secretKey = Some ''pk_test_1'', baseUrl = None\<rparr>
            = Inl (PayMongoConfigError m))
   \<and> (\<exists>m. resolveConfig \<lparr>publicKey = Some ''sk_test_1'', secretKey = None, baseUrl = None\<rparr>
            = Inl (PayMongoConfigError m))
   \<and> (\<exists>rc. resolveConfig \<lparr>publicKey = Some ''pk_test_1'', secretKey = None, baseUrl = None\<rparr> = Inr rc
            \<and> apiKey rc = ''pk_test_1'' \<and> isPublicKey rc)
   \<and> (\<exists>rc. resolveConfig \<lparr>publicKey = Some ''pk_test_1'', secretKey = Some ''sk_test_2'', baseUrl = None\<rparr> = Inr rc
            \<and> apiKey rc = ''sk_test_2'' \<and> \<not> isPublicKey rc)
   \<and> new_PayMongo \<lparr>publicKey = Some ''pk_test_1'', secretKey = Some ''sk_test_2'', baseUrl = None\<rparr>
         \<lparr>the_instance = None, next_ident = 0\<rparr>
       = (Inr \<lparr>ident = 0, config = \<lparr>apiKey = ''sk_test_2'', resolvedBaseUrl = DEFAULT_BASE_URL, isPublicKey = False\<rparr>\<rparr>,
          \<lparr>the_instance = None, next_ident = 1\<rparr>)
   \<and> isServerSide \<lparr>ident = 0, config = \<lparr>apiKey = ''sk_test_2'', resolvedBaseUrl = DEFAULT_BASE_URL, isPublicKey = False\<rparr>\<rparr>"
proof -
  let ?none = "\<lparr>publicKey = None, secretKey = Some [], baseUrl = None\<rparr>"
  let ?badsk = "\<lparr>publicKey = Some ''pk_test_1'', secretKey = Some ''pk_test_1'', baseUrl = None\<rparr>"
  let ?badpk = "\<lparr>publicKey = Some ''sk_test_1'', secretKey = None, baseUrl = None\<rparr>"
  let ?pk = "\<lparr>publicKey = Some ''pk_test_1'', secretKey = None, baseUrl = None\<rparr>"
  let ?both = "\<lparr>publicKey = Some ''pk_test_1'', secretKey = Some ''sk_test_2'', baseUrl = None\<rparr>"
  let ?s0 = "\<lparr>the_instance = None, next_ident = 0\<rparr>"
  let ?p = "\<lparr>ident = 0, config = \<lparr>apiKey = ''sk_test_2'', resolvedBaseUrl = DEFAULT_BASE_URL, isPublicKey = False\<rparr>\<rparr>"
  let ?s1 = "\<lparr>the_instance = None, next_ident = 1\<rparr>"
  have h0: "\<not> truthyKey (publicKey ?none) \<and> \<not> truthyKey (secretKey ?none)"
    by simp
  have h1: "secretKey ?badsk = Some ''pk_test_1'' \<and> ''pk_test_1'' \<noteq> [] \<and> \<not> startsWith ''pk_test_1'' ''sk_''"
    by (simp add: startsWith_def)
  have h2: "\<not> truthyKey (secretKey ?badpk) \<and> publicKey ?badpk = Some ''sk_test_1'' \<and> ''sk_test_1'' \<noteq> []
      \<and> \<not> startsWith ''sk_test_1'' ''pk_''"
    by (simp add: startsWith_def)
  have h3: "\<not> truthyKey (secretKey ?pk) \<and> publicKey ?pk = Some ''pk_test_1'' \<and> startsWith ''pk_test_1'' ''pk_''"
    by (simp add: startsWith_def)
  have h4: "truthyKey (publicKey ?both) \<and> secretKey ?both = Some ''sk_test_2'' \<and> startsWith ''sk_test_2'' ''sk_''"
    by (simp add: startsWith_def)
  have n: "new_PayMongo ?both ?s0 = (Inr ?p, ?s1)"
    by (simp add: new_PayMongo_def resolveConfig_def startsWith_def)
  have h5: "truthyKey (publicKey ?both) \<and> secretKey ?both = Some ''sk_test_2'' \<and> ''sk_test_2'' \<noteq> []
      \<and> new_PayMongo ?both ?s0 = (Inr ?p, ?s1)"
    using n by simp
  note r0 = resolveConfig_credentials [of ?none, THEN conjunct1, THEN mp, OF h0]
  note r1 = resolveConfig_credentials [of ?badsk "''pk_test_1''", THEN conjunct2, THEN conjunct1, THEN mp, OF h1]
  note r2 = resolveConfig_credentials [of ?badpk _ "''sk_test_1''",
      THEN conjunct2, THEN conjunct2, THEN conjunct1, THEN mp, OF h2]
  note r3 = resolveConfig_credentials [of ?pk _ "''pk_test_1''",
      THEN conjunct2, THEN conjunct2, THEN conjunct2, THEN conjunct1, THEN mp, OF h3]
  note r4 = resolveConfig_credentials [of ?both "''sk_test_2''",
      THEN conjunct2, THEN conjunct2, THEN conjunct2, THEN conjunct2, THEN conjunct1, THEN mp, OF h4]
  note r5 = resolveConfig_credentials [of ?both "''sk_test_2''" _ ?s0 ?p ?s1,
      THEN conjunct2, THEN conjunct2, THEN conjunct2, THEN conjunct2, THEN conjunct2, THEN mp, OF h5]
  from r5 have r6: "isServerSide ?p" by (elim conjE)
  from h0 r0 r1 r2 r3 r4 n r6 show ?thesis
    by (intro conjI) simp_all
qed

lemma getInstance_stored:
  "the_instance s = Some p \<Longrightarrow> forceNew cfg \<noteq> Some True \<Longrightarrow> getInstance cfg s = (Inr p, s)"
  by (simp add: getInstance_def)

lemma getInstance_constructs:
  assumes "the_instance s = None \<or> forceNew cfg = Some True" "resolveConfig cfg = Inr rc"
  shows "getInstance cfg s =
     (Inr \<lparr>ident = next_ident s, config = rc\<rparr>,
      \<lparr>the_instance = Some \<lparr>ident = next_ident s, config = rc\<rparr>, next_ident = Suc (next_ident s)\<rparr>)"
  using assms by (auto simp: getInstance_def new_PayMongo_def)

lemma getInstance_fails:
  assumes "the_instance s = None \<or> forceNew cfg = Some True" "resolveConfig cfg = Inl e"
  shows "getInstance cfg s = (Inl e, s)"
  using assms by (auto simp: getInstance_def new_PayMongo_def)

lemma getInstance_wellformed: "wellformed s \<Longrightarrow> wellformed (snd (getInstance cfg s))"
  by (cases "resolveConfig cfg")
     (auto simp: wellformed_def getInstance_def new_PayMongo_def split: option.splits)

text \<open>
  Claim C9. With an instance stored and \<open>forceNew\<close> not set, \<open>getInstance\<close> returns that
  stored instance and leaves the state as it is, whatever configuration it is given. With
  no instance stored, or with \<open>forceNew\<close> set, and a configuration that resolves, it
  constructs a fresh object from that configuration, stores it and returns it; when it
  replaces a stored instance the new object is a different one. \<open>resetInstance\<close> empties
  the slot, so that the next \<open>getInstance\<close> with a configuration that resolves constructs
  afresh. The operations keep the static state well-formed.
\<close>

theorem getInstance_singleton:
  "(the_instance s = Some p \<and> forceNew cfg \<noteq> Some True \<longrightarrow> getInstance cfg s = (Inr p, s))
   \<and> ((the_instance s = None \<or> forceNew cfg = Some True) \<and> resolveConfig cfg = Inr rc \<longrightarrow>
        getInstance cfg s =
          (Inr \<lparr>ident = next_ident s, config = rc\<rparr>,
           \<lparr>the_instance = Some \<lparr>ident = next_ident s, config = rc\<rparr>, next_ident = Suc (next_ident s)\<rparr>))
   \<and> (wellformed s \<and> the_instance s = Some p \<and> forceNew cfg = Some True \<and> resolveConfig cfg = Inr rc \<longrightarrow>
        (\<exists>q s'. getInstance cfg s = (Inr q, s') \<and> the_instance s' = Some q \<and> ident q \<noteq> ident p))
   \<and> the_instance (resetInstance s) = None
   \<and> (resolveConfig cfg = Inr rc \<longrightarrow>
        getInstance cfg (resetInstance s) =
          (Inr \<lparr>ident = next_ident s, config = rc\<rparr>,
           \<lparr>the_instance = Some \<lparr>ident = next_ident s, config = rc\<rparr>, next_ident = Suc (next_ident s)\<rparr>))
   \<and> (wellformed s \<longrightarrow> wellformed (snd (getInstance cfg s)) \<and> wellformed (resetInstance s))"
proof -
  have a: "the_instance s = Some p \<and> forceNew cfg \<noteq> Some True \<longrightarrow> getInstance cfg s = (Inr p, s)"
    by (simp add: getInstance_stored)
  have b: "(the_instance s = None \<or> forceNew cfg = Some True) \<and> resolveConfig cfg = Inr rc \<longrightarrow>
        getInstance cfg s =
          (Inr \<lparr>ident = next_ident s, config = rc\<rparr>,
           \<lparr>the_instance = Some \<lparr>ident = next_ident s, config = rc\<rparr>, next_ident = Suc (next_ident s)\<rparr>)"
    using getInstance_constructs [of s cfg rc] by blast
  have c: "wellformed s \<and> the_instance s = Some p \<and> forceNew cfg = Some True \<and> resolveConfig cfg = Inr rc \<longrightarrow>
        (\<exists>q s'. getInstance cfg s = (Inr q, s') \<and> the_instance s' = Some q \<and> ident q \<noteq> ident p)"
    using getInstance_constructs [of s cfg rc] by (auto simp: wellformed_def)
  have d: "the_instance (resetInstance s) = None"
    by (simp add: resetInstance_def)
  have e: "resolveConfig cfg = Inr rc \<longrightarrow>
        getInstance cfg (resetInstance s) =
          (Inr \<lparr>ident = next_ident s, config = rc\<rparr>,
           \<lparr>the_instance = Some \<lparr>ident = next_ident s, config = rc\<rparr>, next_ident = Suc (next_ident s)\<rparr>)"
    using getInstance_constructs [of "resetInstance s" cfg rc] by (simp add: resetInstance_def)
  have f: "wellformed s \<longrightarrow> wellformed (snd (getInstance cfg s)) \<and> wellformed (resetInstance s)"
    by (simp add: getInstance_wellformed) (simp add: wellformed_def resetInstance_def)
  from a b c d e f show ?thesis by blast
qed

theorem getInstance_singleton_witness:
  "getInstance \<lparr>publicKey = None, secretKey = Some ''sk_test_1'', baseUrl = None, forceNew = None\<rparr>
       \<lparr>the_instance = None, next_ident = 0\<rparr>
     = (Inr \<lparr>ident = 0, config = \<lparr>apiKey = ''sk_test_1'', resolvedBaseUrl = DEFAULT_BASE_URL, isPublicKey = False\<rparr>\<rparr>,
        \<lparr>the_instance = Some \<lparr>ident = 0, config = \<lparr>apiKey = ''sk_test_1'', resolvedBaseUrl = DEFAULT_BASE_URL, isPublicKey = False\<rparr>\<rparr>,
         next_ident = 1\<rparr>)
   \<and> getInstance \<lparr>publicKey = Some ''pk_test_2'', secretKey = None, baseUrl = None, forceNew = Some False\<rparr>
       \<lparr>the_instance = Some \<lparr>ident = 0, config = \<lparr>apiKey = ''sk_test_1'', resolvedBaseUrl = DEFAULT_BASE_URL, isPublicKey = False\<rparr>\<rparr>,
         next_ident = 1\<rparr>
     = (Inr \<lparr>ident = 0, config = \<lparr>apiKey = ''sk_test_1'', resolvedBaseUrl = DEFAULT_BASE_URL, isPublicKey = False\<rparr>\<rparr>,
        \<lparr>the_instance = Some \<lparr>ident = 0, config = \<lparr>apiKey = ''sk_test_1'', resolvedBaseUrl = DEFAULT_BASE_URL, isPublicKey = False\<rparr>\<rparr>,
         next_ident = 1\<rparr>)
   \<and> getInstance \<lparr>publicKey = Some ''pk_test_2'', secretKey = None, baseUrl = None, forceNew = Some True\<rparr>
       \<lparr>the_instance = Some \<lparr>ident = 0, config = \<lparr>apiKey = ''sk_test_1'', resolvedBaseUrl = DEFAULT_BASE_URL, isPublicKey = False\<rparr>\<rparr>,
         next_ident = 1\<rparr>
     = (Inr \<lparr>ident = 1, config = \<lparr>apiKey = ''pk_test_2'', resolvedBaseUrl = DEFAULT_BASE_URL, isPublicKey = True\<rparr>\<rparr>,
        \<lparr>the_instance = Some \<lparr>ident = 1, config = \<lparr>apiKey = ''pk_test_2'', resolvedBaseUrl = DEFAULT_BASE_URL, isPublicKey = True\<rparr>\<rparr>,
         next_ident = 2\<rparr>)
   \<and> wellformed \<lparr>the_instance = Some \<lparr>ident = 0, config = \<lparr>apiKey = ''sk_test_1'', resolvedBaseUrl = DEFAULT_BASE_URL, isPublicKey = False\<rparr>\<rparr>,
         next_ident = 1\<rparr>
   \<and> (\<exists>q s'. getInstance \<lparr>publicKey = Some ''pk_test_2'', secretKey = None, baseUrl = None, forceNew = Some True\<rparr>
           \<lparr>the_instance = Some \<lparr>ident = 0, config = \<lparr>apiKey = ''sk_test_1'', resolvedBaseUrl = DEFAULT_BASE_URL, isPublicKey = False\<rparr>\<rparr>,
             next_ident = 1\<rparr> = (Inr q, s')
         \<and> the_instance s' = Some q
         \<and> ident q \<noteq> ident \<lparr>ident = 0, config = \<lparr>apiKey = ''sk_test_1'', resolvedBaseUrl = DEFAULT_BASE_URL, isPublicKey = False\<rparr>\<rparr>)
   \<and> getInstance \<lparr>publicKey = None, secretKey = Some ''sk_test_1'', baseUrl = None, forceNew = None\<rparr>
       (resetInstance \<lparr>the_instance = Some \<lparr>ident = 0, config = \<lparr>apiKey = ''sk_test_1'', resolvedBaseUrl = DEFAULT_BASE_URL, isPublicKey = False\<rparr>\<rparr>,
         next_ident = 1\<rparr>)
     = (Inr \<lparr>ident = 1, config = \<lparr>apiKey = ''sk_test_1'', resolvedBaseUrl = DEFAULT_BASE_URL, isPublicKey = False\<rparr>\<rparr>,
        \<lparr>the_instance = Some \<lparr>ident = 1, config = \<lparr>apiKey = ''sk_test_1'', resolvedBaseUrl = DEFAULT_BASE_URL, isPublicKey = False\<rparr>\<rparr>,
         next_ident = 2\<rparr>)"
proof -
  let ?rc1 = "\<lparr>apiKey = ''sk_test_1'', resolvedBaseUrl = DEFAULT_BASE_URL, isPublicKey = False\<rparr>"
  let ?rc2 = "\<lparr>apiKey = ''pk_test_2'', resolvedBaseUrl = DEFAULT_BASE_URL, isPublicKey = True\<rparr>"
  let ?c1 = "\<lparr>publicKey = None, secretKey = Some ''sk_test_1'', baseUrl = None, forceNew = None\<rparr>"
  let ?c2 = "\<lparr>publicKey = Some ''pk_test_2'', secretKey = None, baseUrl = None, forceNew = Some False\<rparr>"
  let ?c3 = "\<lparr>publicKey = Some ''pk_test_2'', secretKey = None, baseUrl = None, forceNew = Some True\<rparr>"
  let ?s0 = "\<lparr>the_instance = None, next_ident = 0\<rparr>"
  let ?p0 = "\<lparr>ident = 0, config = ?rc1\<rparr>"
  let ?s1 = "\<lparr>the_instance = Some ?p0, next_ident = 1\<rparr>"
  have k1: "resolveConfig ?c1 = Inr ?rc1"
    by (simp add: resolveConfig_def startsWith_def)
  have k3: "resolveConfig ?c3 = Inr ?rc2"
    by (simp add: resolveConfig_def startsWith_def)
  have g1: "the_instance ?s0 = None \<or> forceNew ?c1 = Some True" by simp
  have g2: "the_instance ?s1 = Some ?p0 \<and> forceNew ?c2 \<noteq> Some True" by simp
  have g3: "the_instance ?s1 = None \<or> forceNew ?c3 = Some True" by simp
  have w: "wellformed ?s1" by (simp add: wellformed_def)
  have g4: "wellformed ?s1 \<and> the_instance ?s1 = Some ?p0 \<and> forceNew ?c3 = Some True \<and> resolveConfig ?c3 = Inr ?rc2"
    using w k3 by simp
  note t1 = getInstance_singleton [of ?s0 _ ?c1 ?rc1, THEN conjunct2, THEN conjunct1, THEN mp, OF conjI [OF g1 k1]]
  note t2 = getInstance_singleton [of ?s1 ?p0 ?c2, THEN conjunct1, THEN mp, OF g2]
  note t3 = getInstance_singleton [of ?s1 _ ?c3 ?rc2, THEN conjunct2, THEN conjunct1, THEN mp, OF conjI [OF g3 k3]]
  note t4 = getInstance_singleton [of ?s1 ?p0 ?c3 ?rc2, THEN conjunct2, THEN conjunct2, THEN conjunct1, THEN mp, OF g4]
  note t5 = getInstance_singleton [of ?s1 _ ?c1 ?rc1,
      THEN conjunct2, THEN conjunct2, THEN conjunct2, THEN conjunct2, THEN conjunct1, THEN mp, OF k1]
  from t1 have r1: "getInstance ?c1 ?s0 = (Inr ?p0, ?s1)" by simp
  from t2 have r2: "getInstance ?c2 ?s1 = (Inr ?p0, ?s1)" .
  from t3 have r3: "getInstance ?c3 ?s1
      = (Inr \<lparr>ident = 1, config = ?rc2\<rparr>, \<lparr>the_instance = Some \<lparr>ident = 1, config = ?rc2\<rparr>, next_ident = 2\<rparr>)"
    by simp
  from t5 have r5: "getInstance ?c1 (resetInstance ?s1)
      = (Inr \<lparr>ident = 1, config = ?rc1\<rparr>, \<lparr>the_instance = Some \<lparr>ident = 1, config = ?rc1\<rparr>, next_ident = 2\<rparr>)"
    by simp
  from r1 r2 r3 w t4 r5 show ?thesis by (intro conjI)
qed

text \<open>
  Claim C10. \<open>getInstance\<close> fails exactly when it runs the constructor (no instance stored,
  or \<open>forceNew\<close> set) and the configuration does not resolve. It then fails with the
  configuration error of \<open>resolveConfig\<close> and the static state is unchanged: an instance
  stored before is still the one that a later \<open>getInstance\<close> without \<open>forceNew\<close> returns,
  and where none was stored none is.
\<close>

theorem getInstance_failure_keeps_state:
  "((\<exists>e. fst (getInstance cfg s) = Inl e)
      \<longleftrightarrow> (the_instance s = None \<or> forceNew cfg = Some True) \<and> (\<exists>e. resolveConfig cfg = Inl e))
   \<and> ((the_instance s = None \<or> forceNew cfg = Some True) \<and> resolveConfig cfg = Inl e \<longrightarrow>
        getInstance cfg s = (Inl e, s) \<and> (\<exists>m. e = PayMongoConfigError m))
   \<and> (the_instance s = Some p \<and> forceNew cfg = Some True \<and> resolveConfig cfg = Inl e
        \<and> forceNew cfg' \<noteq> Some True \<longrightarrow>
        getInstance cfg' (snd (getInstance cfg s)) = (Inr p, s))
   \<and> (the_instance s = None \<and> resolveConfig cfg = Inl e \<longrightarrow>
        the_instance (snd (getInstance cfg s)) = None)"
proof -
  have a: "(\<exists>e. fst (getInstance cfg s) = Inl e)
      \<longleftrightarrow> (the_instance s = None \<or> forceNew cfg = Some True) \<and> (\<exists>e. resolveConfig cfg = Inl e)"
    by (cases "resolveConfig cfg") (auto simp: getInstance_def new_PayMongo_def)
  have b: "(the_instance s = None \<or> forceNew cfg = Some True) \<and> resolveConfig cfg = Inl e \<longrightarrow>
        getInstance cfg s = (Inl e, s) \<and> (\<exists>m. e = PayMongoConfigError m)"
    using getInstance_fails [of s cfg e] resolveConfig_error_kind [of cfg e] by blast
  have c: "the_instance s = Some p \<and> forceNew cfg = Some True \<and> resolveConfig cfg = Inl e
        \<and> forceNew cfg' \<noteq> Some True \<longrightarrow>
        getInstance cfg' (snd (getInstance cfg s)) = (Inr p, s)"
    using getInstance_fails [of s cfg e] getInstance_stored [of s p cfg'] by simp
  have d: "the_instance s = None \<and> resolveConfig cfg = Inl e \<longrightarrow>
        the_instance (snd (getInstance cfg s)) = None"
    using getInstance_fails [of s cfg e] by simp
  from a b c d show ?thesis by blast
qed

theorem getInstance_failure_keeps_state_witness:
  "(\<exists>m. getInstance \<lparr>publicKey = Some ''bad_key'', secretKey = None, baseUrl = None, forceNew = Some True\<rparr>
       \<lparr>the_instance = Some \<lparr>ident = 0, config = \<lparr>apiKey = ''sk_test_1'', resolvedBaseUrl = DEFAULT_BASE_URL, isPublicKey = False\<rparr>\<rparr>,
         next_ident = 1\<rparr>
     = (Inl (PayMongoConfigError m),
        \<lparr>the_instance = Some \<lparr>ident = 0, config = \<lparr>apiKey = ''sk_test_1'', resolvedBaseUrl = DEFAULT_BASE_URL, isPublicKey = False\<rparr>\<rparr>,
         next_ident = 1\<rparr>))
   \<and> getInstance \<lparr>publicKey = None, secretKey = None, baseUrl = None, forceNew = None\<rparr>
       (snd (getInstance \<lparr>publicKey = Some ''bad_key'', secretKey = None, baseUrl = None, forceNew = Some True\<rparr>
         \<lparr>the_instance = Some \<lparr>ident = 0, config = \<lparr>apiKey = ''sk_test_1'', resolvedBaseUrl = DEFAULT_BASE_URL, isPublicKey = False\<rparr>\<rparr>,
           next_ident = 1\<rparr>))
     = (Inr \<lparr>ident = 0, config = \<lparr>apiKey = ''sk_test_1'', resolvedBaseUrl = DEFAULT_BASE_URL, isPublicKey = False\<rparr>\<rparr>,
        \<lparr>the_instance = Some \<lparr>ident = 0, config = \<lparr>apiKey = ''sk_test_1'', resolvedBaseUrl = DEFAULT_BASE_URL, isPublicKey = False\<rparr>\<rparr>,
         next_ident = 1\<rparr>)
   \<and> the_instance (snd (getInstance \<lparr>publicKey = None, secretKey = None, baseUrl = None, forceNew = None\<rparr>
         \<lparr>the_instance = None, next_ident = 0\<rparr>)) = None"
proof -
  let ?rc1 = "\<lparr>apiKey = ''sk_test_1'', resolvedBaseUrl = DEFAULT_BASE_URL, isPublicKey = False\<rparr>"
  let ?p0 = "\<lparr>ident = 0, config = ?rc1\<rparr>"
  let ?s1 = "\<lparr>the_instance = Some ?p0, next_ident = 1\<rparr>"
  let ?s0 = "\<lparr>the_instance = None, next_ident = 0\<rparr>"
  let ?bad = "\<lparr>publicKey = Some ''bad_key'', secretKey = None, baseUrl = None, forceNew = Some True\<rparr>"
  let ?empty = "\<lparr>publicKey = None, secretKey = None, baseUrl = None, forceNew = None\<rparr>"
  have "\<exists>e. resolveConfig ?bad = Inl e"
    by (simp add: resolveConfig_def startsWith_def)
  then obtain e where k: "resolveConfig ?bad = Inl e" by blast
  have k0: "\<exists>e. resolveConfig ?empty = Inl e"
    by (simp add: resolveConfig_def)
  have g1: "(the_instance ?s1 = None \<or> forceNew ?bad = Some True) \<and> resolveConfig ?bad = Inl e"
    using k by simp
  have g2: "the_instance ?s1 = Some ?p0 \<and> forceNew ?bad = Some True \<and> resolveConfig ?bad = Inl e
      \<and> forceNew ?empty \<noteq> Some True"
    using k by simp
  from k0 obtain e0 where k0': "resolveConfig ?empty = Inl e0" by blast
  have g3: "the_instance ?s0 = None \<and> resolveConfig ?empty = Inl e0"
    using k0' by simp
  note t1 = getInstance_failure_keeps_state [of ?bad ?s1 e, THEN conjunct2, THEN conjunct1, THEN mp, OF g1]
  note t2 = getInstance_failure_keeps_state [of ?bad ?s1 e ?p0 ?empty, THEN conjunct2, THEN conjunct2, THEN conjunct1, THEN mp, OF g2]
  note t3 = getInstance_failure_keeps_state [of ?empty ?s0 e0, THEN conjunct2, THEN conjunct2, THEN conjunct2, THEN mp, OF g3]
  from t1 obtain m where "getInstance ?bad ?s1 = (Inl e, ?s1)" "e = PayMongoConfigError m" by blast
  then have r1: "\<exists>m. getInstance ?bad ?s1 = (Inl (PayMongoConfigError m), ?s1)" by blast
  from t2 have r2: "getInstance ?empty (snd (getInstance ?bad ?s1)) = (Inr ?p0, ?s1)" .
  from t3 have r3: "the_instance (snd (getInstance ?empty ?s0)) = None" .
  from r1 r2 r3 show ?thesis by (intro conjI)
qed

end
